theory Spec2Isabelle
  imports
    Complex_Main
    "HOL-Library.Product_Lexorder"
    "HOL-Library.Char_ord"
    "HOL-Library.List_Lexorder"
    "HOL-Library.Multiset"
    "HOL-Library.Log_Nat"
begin

section \<open>School attendance tracker: data model\<close>

text \<open>
  The relational store of \<^verbatim>\<open>supabase/migrations/20250811012231_warm_mud.sql\<close> holds three
  tables. The two enumerations of the schema are closed datatypes; a calendar date (the
  store's \<^verbatim>\<open>date\<close> column, which travels as the text \<^verbatim>\<open>yyyy-MM-dd\<close>) is the triple
  (year, month, day), ordered lexicographically, which is the chronological order.
  Instants (\<^verbatim>\<open>timestamptz\<close>, JavaScript \<^verbatim>\<open>Date\<close>) are milliseconds since the epoch.
\<close>

datatype status = Present | Absent | Late | Excused

datatype gender = Male | Female

type_synonym date = "nat \<times> nat \<times> nat"

text \<open>
  The rows of the three tables. Class and student identifiers are the UUID texts the
  clients send; the identifier of an attendance row is drawn by the store when the row
  is inserted (\<^verbatim>\<open>gen_random_uuid()\<close>) and is modelled by a counter kept with the tables.
\<close>

record class_row =
  c_id :: string
  c_class_name :: string
  c_grade :: int
  c_created_at :: int

record student_row =
  s_id :: string
  s_name :: string
  s_class_id :: string
  s_gender :: gender
  s_date_of_birth :: date
  s_created_at :: int

record attendance_row =
  a_id :: nat
  a_student_id :: string
  a_date :: date
  a_status :: status
  a_created_at :: int

text \<open>
  A table is the list of its rows in the order in which the store holds them. The
  constraints of the schema are not built into the type: \<^verbatim>\<open>PRIMARY KEY\<close> and
  \<^verbatim>\<open>UNIQUE(student_id, date)\<close> appear as the hypotheses \<open>distinct (map s_id \<dots>)\<close>
  and \<open>distinct (map row_key \<dots>)\<close> of the theorems that need them.
\<close>

record store =
  classes :: "class_row list"
  students :: "student_row list"
  attendance :: "attendance_row list"
  next_id :: nat


section \<open>Chart aggregation (\<^verbatim>\<open>server/routes/attendance.js\<close>, GET /charts)\<close>

text \<open>
  The rows the chart query selects: \<^verbatim>\<open>date\<close> and \<^verbatim>\<open>status\<close> (the embedded student is not read
  by the aggregation).
\<close>

record chart_row =
  r_date :: date
  r_status :: status

text \<open>The object \<^verbatim>\<open>{ Present: 0, Absent: 0, Late: 0, Excused: 0 }\<close> of counters.\<close>

record counts =
  cPresent :: nat
  cAbsent :: nat
  cLate :: nat
  cExcused :: nat

definition zero_counts :: counts where
  "zero_counts = \<lparr>cPresent = 0, cAbsent = 0, cLate = 0, cExcused = 0\<rparr>"

text \<open>\<^verbatim>\<open>counts[status]++\<close>\<close>

fun incr :: "status \<Rightarrow> counts \<Rightarrow> counts" where
  "incr Present c = c\<lparr>cPresent := cPresent c + 1\<rparr>"
| "incr Absent c = c\<lparr>cAbsent := cAbsent c + 1\<rparr>"
| "incr Late c = c\<lparr>cLate := cLate c + 1\<rparr>"
| "incr Excused c = c\<lparr>cExcused := cExcused c + 1\<rparr>"

text \<open>
  \<^verbatim>\<open>chartData.daily\<close> is a JavaScript object keyed by the date text. Such a key is never an
  array index, so the object enumerates its keys in the order in which they were first
  assigned: the object is an association list in insertion order, and assigning to a
  key that is present keeps its position.

  \<^verbatim>\<open>if (!daily[date]) daily[date] = {zeros}; daily[date][status]++\<close>
\<close>

fun daily_incr :: "date \<Rightarrow> status \<Rightarrow> (date \<times> counts) list \<Rightarrow> (date \<times> counts) list" where
  "daily_incr d s [] = [(d, incr s zero_counts)]"
| "daily_incr d s ((d', c) # rest) =
     (if d' = d then (d', incr s c) # rest else (d', c) # daily_incr d s rest)"

record trend =
  t_date :: date
  t_Present :: nat
  t_Absent :: nat
  t_Late :: nat
  t_Excused :: nat
  t_total :: nat

record chartData =
  daily :: "(date \<times> counts) list"
  statusCounts :: counts
  trends :: "trend list"

text \<open>The body of \<^verbatim>\<open>data?.forEach(record => ...)\<close>.\<close>

definition chart_step :: "chartData \<Rightarrow> chart_row \<Rightarrow> chartData" where
  "chart_step cd r =
     cd\<lparr>statusCounts := incr (r_status r) (statusCounts cd),
        daily := daily_incr (r_date r) (r_status r) (daily cd)\<rparr>"

text \<open>\<^verbatim>\<open>Object.values(counts).reduce((sum, count) => sum + count, 0)\<close>\<close>

definition counts_values :: "counts \<Rightarrow> nat list" where
  "counts_values c = [cPresent c, cAbsent c, cLate c, cExcused c]"

definition to_trend :: "date \<times> counts \<Rightarrow> trend" where
  "to_trend e =
     \<lparr>t_date = fst e,
      t_Present = cPresent (snd e), t_Absent = cAbsent (snd e),
      t_Late = cLate (snd e), t_Excused = cExcused (snd e),
      t_total = foldl (\<lambda>sum count. sum + count) 0 (counts_values (snd e))\<rparr>"

definition chart_init :: chartData where
  "chart_init = \<lparr>daily = [], statusCounts = zero_counts, trends = []\<rparr>"

text \<open>
  The whole processing step of the route: the loop over the rows, then
  \<^verbatim>\<open>chartData.trends = Object.entries(chartData.daily).map(...)\<close>. (When the query yields
  no array, \<^verbatim>\<open>data?.forEach\<close> does not run: the result is that of the empty list.)
\<close>

definition chart_aggregation :: "chart_row list \<Rightarrow> chartData" where
  "chart_aggregation data =
     (let cd = foldl chart_step chart_init data
      in cd\<lparr>trends := map to_trend (daily cd)\<rparr>)"

text \<open>The reference notions the aggregation is compared with.\<close>

definition count_rows :: "chart_row list \<Rightarrow> date \<Rightarrow> status \<Rightarrow> nat" where
  "count_rows data d s = length (filter (\<lambda>r. r_date r = d \<and> r_status r = s) data)"

text \<open>The distinct elements of a list, each at the place of its first occurrence.\<close>

fun first_seen :: "'a list \<Rightarrow> 'a list" where
  "first_seen [] = []"
| "first_seen (x # xs) = x # first_seen (filter (\<lambda>y. y \<noteq> x) xs)"

text \<open>The four counters a date should carry: the number of rows of each status on it.\<close>

definition counts_for :: "chart_row list \<Rightarrow> date \<Rightarrow> counts" where
  "counts_for data d =
     \<lparr>cPresent = count_rows data d Present, cAbsent = count_rows data d Absent,
      cLate = count_rows data d Late, cExcused = count_rows data d Excused\<rparr>"

section \<open>Dashboard attendance rate (\<^verbatim>\<open>loadDashboardData\<close> of the dashboard component)\<close>

text \<open>
  \<^verbatim>\<open>Math.round((presentToday / totalToday) * 100)\<close> is computed on JavaScript numbers, that
  is, in IEEE 754 binary64 with rounding to nearest, ties to even. A finite binary64
  value is a rational number, and an arithmetic operation returns the exact result
  rounded to the nearest representable value.

  \<open>round_even\<close> rounds a rational to the nearest integer, a tie going to the even one.
\<close>

definition round_even :: "rat \<Rightarrow> int" where
  "round_even z =
     (let f = \<lfloor>z\<rfloor>; d = z - of_int f
      in if d < 1 / 2 then f else if 1 / 2 < d then f + 1 else if even f then f else f + 1)"

text \<open>
  The binary exponent of a positive rational: the integer \<open>e\<close> with
  \<open>2 powi e \<le> x < 2 powi (e + 1)\<close> (lemmas \<open>ilog2_lower\<close> and \<open>ilog2_upper\<close>), computed
  from the bit length of the integer part of \<open>x\<close>, or of \<open>1 / x\<close> when \<open>x < 1\<close>.
\<close>

definition ilog2 :: "rat \<Rightarrow> int" where
  "ilog2 x = (if 1 \<le> x then bitlen \<lfloor>x\<rfloor> - 1 else - bitlen (\<lceil>1 / x\<rceil> - 1))"

text \<open>
  The nearest binary64 value: 53 significant bits, so the spacing of the representable
  values around \<open>x\<close> is \<open>2 powi (e - 52)\<close>, where the exponent \<open>e\<close> is not taken below
  \<open>-1022\<close> (gradual underflow). Overflow to an infinity, which needs
  \<open>\<bar>x\<bar> \<ge> 2 ^ 1024\<close>, is outside the model: the values arising here lie in \<open>[0, 100]\<close>.
\<close>

definition binary64 :: "rat \<Rightarrow> rat" where
  "binary64 x =
     (if x = 0 then 0
      else let q = 2 powi (max (ilog2 \<bar>x\<bar>) (- 1022) - 52)
           in sgn x * of_int (round_even (\<bar>x\<bar> / q)) * q)"

text \<open>The operators \<^verbatim>\<open>/\<close> and \<^verbatim>\<open>*\<close> on numbers.\<close>

definition js_div :: "rat \<Rightarrow> rat \<Rightarrow> rat" where
  "js_div a b = binary64 (a / b)"

definition js_mul :: "rat \<Rightarrow> rat \<Rightarrow> rat" where
  "js_mul a b = binary64 (a * b)"

text \<open>
  \<^verbatim>\<open>Math.round\<close>: the integer closest to the argument, a tie going towards positive
  infinity.
\<close>

definition math_round :: "rat \<Rightarrow> int" where
  "math_round x = \<lfloor>x + 1 / 2\<rfloor>"

text \<open>
  \<^verbatim>\<open>const totalToday = presentToday + absentToday;\<close>
  \<^verbatim>\<open>const attendanceRate = totalToday > 0 ? Math.round((presentToday / totalToday) * 100) : 0;\<close>

  The two counts are lengths of arrays, hence integers below \<open>2 ^ 32\<close>; they and their
  sum are representable exactly, so the sum is written as the sum of naturals.
\<close>

definition attendance_rate :: "nat \<Rightarrow> nat \<Rightarrow> int" where
  "attendance_rate presentToday absentToday =
     (let totalToday = presentToday + absentToday
      in if 0 < totalToday
         then math_round (js_mul (js_div (of_nat presentToday) (of_nat totalToday)) 100)
         else 0)"

text \<open>
  \<^verbatim>\<open>todayAttendance.filter(a => a.status === 'Present').length\<close>, the same for
  \<^verbatim>\<open>'Absent'\<close>, then the rate.
\<close>

definition dashboard_rate :: "attendance_row list \<Rightarrow> int" where
  "dashboard_rate todayAttendance =
     (let presentToday = length (filter (\<lambda>a. a_status a = Present) todayAttendance);
          absentToday = length (filter (\<lambda>a. a_status a = Absent) todayAttendance)
      in attendance_rate presentToday absentToday)"

text \<open>The number of rows of a day with a given status.\<close>

definition count_status :: "status \<Rightarrow> attendance_row list \<Rightarrow> nat" where
  "count_status s rows = length (filter (\<lambda>a. a_status a = s) rows)"

section \<open>Request validation (the Joi schemas of the route files)\<close>

text \<open>
  A request body is a JSON object as \<^verbatim>\<open>express.json()\<close> delivers it: the list of its
  properties, in the object's own order, each a JSON value. A lookup is \<open>map_of\<close>; a
  property that is absent reads as \<^verbatim>\<open>undefined\<close>, here \<open>None\<close>. Strings count their
  code units with \<open>length\<close>, as \<^verbatim>\<open>String.prototype.length\<close> does.
\<close>

datatype jsval =
    JNull
  | JBool bool
  | JNum rat
  | JStr string
  | JArr "jsval list"
  | JObj "(string \<times> jsval) list"

type_synonym body = "(string \<times> jsval) list"

text \<open>
  What the schemas delegate to the validation library and to the clock is a parameter
  of the model, so that every theorem holds for each behaviour of these parts:
  \<^item> \<open>guid_ok\<close>: the pattern behind \<^verbatim>\<open>Joi.string().uuid()\<close>;
  \<^item> \<open>number_of_string\<close>: the conversion \<^verbatim>\<open>Joi.number()\<close> applies to a numeric text
    (\<open>None\<close> for a text it does not convert);
  \<^item> \<open>date_parse\<close>: the instant \<^verbatim>\<open>Joi.date()\<close> reads from a number or a text
    (\<open>None\<close> when it reads none);
  \<^item> \<open>now\<close>: the clock read by \<^verbatim>\<open>Joi.date().max('now')\<close>;
  \<^item> \<open>date_of_instant\<close>: the calendar date the store's \<^verbatim>\<open>date\<close> column keeps of a
    submitted instant;
  \<^item> \<open>db_now\<close>: the store's \<^verbatim>\<open>now()\<close>, the default of \<^verbatim>\<open>created_at\<close>;
  \<^item> \<open>uuid_input\<close>: the store's reading of a text as a value of its type \<^verbatim>\<open>uuid\<close>, given
    as the canonical text of the value (\<open>None\<close> for a text the store rejects with
    \<^verbatim>\<open>invalid input syntax for type uuid\<close>). The library and the store do not accept the
    same texts: the pattern of \<^verbatim>\<open>Joi.string().uuid()\<close> admits colons as separators and
    round or square brackets around the digits, which the store rejects.
\<close>

record env =
  guid_ok :: "string \<Rightarrow> bool"
  number_of_string :: "string \<Rightarrow> rat option"
  date_parse :: "jsval \<Rightarrow> int option"
  now :: int
  date_of_instant :: "int \<Rightarrow> date"
  db_now :: int
  uuid_input :: "string \<Rightarrow> string option"

text \<open>
  A validation error carries the path of the offending value, which the message
  \<^verbatim>\<open>validationError.details[0].message\<close> names: a key, or a key followed by an array index
  and a key.
\<close>

datatype path_elem = Key string | Idx nat

text \<open>
  The field schemas. Each returns the validated value, or \<open>None\<close> when the library
  reports an error for the field; every field of the schemas is \<^verbatim>\<open>required()\<close>, so an
  absent property is an error. Validation runs with the library's defaults: conversion
  on, the first error ends it, and a key outside the schema is an error.

  \<^verbatim>\<open>Joi.string().min(lo).max(hi).required()\<close>: a string, not empty, of a length within
  the bounds.
\<close>

definition joi_string :: "nat \<Rightarrow> nat \<Rightarrow> jsval option \<Rightarrow> string option" where
  "joi_string lo hi v =
     (case v of
        Some (JStr s) \<Rightarrow> if s \<noteq> [] \<and> lo \<le> length s \<and> length s \<le> hi then Some s else None
      | _ \<Rightarrow> None)"

text \<open>\<^verbatim>\<open>Joi.string().uuid().required()\<close>\<close>

definition joi_uuid :: "env \<Rightarrow> jsval option \<Rightarrow> string option" where
  "joi_uuid env v =
     (case v of
        Some (JStr s) \<Rightarrow> if s \<noteq> [] \<and> guid_ok env s then Some s else None
      | _ \<Rightarrow> None)"

text \<open>\<^verbatim>\<open>Joi.string().valid(...).required()\<close>: one of the listed texts, compared exactly.\<close>

definition joi_valid :: "string list \<Rightarrow> jsval option \<Rightarrow> string option" where
  "joi_valid allowed v =
     (case v of
        Some (JStr s) \<Rightarrow> if s \<in> set allowed then Some s else None
      | _ \<Rightarrow> None)"

text \<open>
  \<^verbatim>\<open>Joi.number()\<close>: a number, or a text the library converts to one; a value beyond the
  safe integers \<open>\<plusminus> (2 ^ 53 - 1)\<close> is an error.
\<close>

definition joi_number :: "env \<Rightarrow> jsval option \<Rightarrow> rat option" where
  "joi_number env v =
     (case (case v of
              Some (JNum n) \<Rightarrow> Some n
            | Some (JStr s) \<Rightarrow> number_of_string env s
            | _ \<Rightarrow> None) of
        Some n \<Rightarrow> if \<bar>n\<bar> \<le> 9007199254740991 then Some n else None
      | None \<Rightarrow> None)"

text \<open>\<^verbatim>\<open>Joi.number().integer().min(lo).max(hi).required()\<close>\<close>

definition joi_integer :: "env \<Rightarrow> int \<Rightarrow> int \<Rightarrow> jsval option \<Rightarrow> int option" where
  "joi_integer env lo hi v =
     (case joi_number env v of
        Some n \<Rightarrow>
          if of_int \<lfloor>n\<rfloor> = n \<and> of_int lo \<le> n \<and> n \<le> of_int hi then Some \<lfloor>n\<rfloor> else None
      | None \<Rightarrow> None)"

text \<open>\<^verbatim>\<open>Joi.date().required()\<close>: the instant read from a number or a text.\<close>

definition joi_date :: "env \<Rightarrow> jsval option \<Rightarrow> int option" where
  "joi_date env v =
     (case v of
        Some (JNum n) \<Rightarrow> date_parse env (JNum n)
      | Some (JStr s) \<Rightarrow> date_parse env (JStr s)
      | _ \<Rightarrow> None)"

text \<open>\<^verbatim>\<open>Joi.date().max('now').required()\<close>\<close>

definition joi_date_max_now :: "env \<Rightarrow> jsval option \<Rightarrow> int option" where
  "joi_date_max_now env v =
     (case joi_date env v of
        Some t \<Rightarrow> if t \<le> now env then Some t else None
      | None \<Rightarrow> None)"

text \<open>The keys of the body that the schema does not declare, in the body's order.\<close>

definition unknown_keys :: "string list \<Rightarrow> body \<Rightarrow> string list" where
  "unknown_keys known b = filter (\<lambda>k. k \<notin> set known) (map fst b)"

text \<open>
  An object schema validates its keys in the order of their declaration and stops at
  the first error; when all pass, the first undeclared key of the body is the error.

  \<^verbatim>\<open>classSchema\<close> (the classes route):
  \<^verbatim>\<open>class_name: Joi.string().min(1).max(50).required(),\<close>
  \<^verbatim>\<open>grade: Joi.number().integer().min(1).max(12).required()\<close>
\<close>

record class_value =
  v_class_name :: string
  v_grade :: int

definition classSchema :: "env \<Rightarrow> body \<Rightarrow> path_elem list + class_value" where
  "classSchema env b =
     (case joi_string 1 50 (map_of b ''class_name'') of
        None \<Rightarrow> Inl [Key ''class_name'']
      | Some n \<Rightarrow>
     (case joi_integer env 1 12 (map_of b ''grade'') of
        None \<Rightarrow> Inl [Key ''grade'']
      | Some g \<Rightarrow>
     (case unknown_keys [''class_name'', ''grade''] b of
        k # _ \<Rightarrow> Inl [Key k]
      | [] \<Rightarrow> Inr \<lparr>v_class_name = n, v_grade = g\<rparr>)))"

text \<open>
  \<^verbatim>\<open>studentSchema\<close> (the students route):
  \<^verbatim>\<open>name: Joi.string().min(2).max(100).required(),\<close>
  \<^verbatim>\<open>class_id: Joi.string().uuid().required(),\<close>
  \<^verbatim>\<open>gender: Joi.string().valid('Male', 'Female').required(),\<close>
  \<^verbatim>\<open>date_of_birth: Joi.date().max('now').required()\<close>
\<close>

record student_value =
  v_name :: string
  v_class_id :: string
  v_gender :: string
  v_date_of_birth :: int

definition studentSchema :: "env \<Rightarrow> body \<Rightarrow> path_elem list + student_value" where
  "studentSchema env b =
     (case joi_string 2 100 (map_of b ''name'') of
        None \<Rightarrow> Inl [Key ''name'']
      | Some n \<Rightarrow>
     (case joi_uuid env (map_of b ''class_id'') of
        None \<Rightarrow> Inl [Key ''class_id'']
      | Some c \<Rightarrow>
     (case joi_valid [''Male'', ''Female''] (map_of b ''gender'') of
        None \<Rightarrow> Inl [Key ''gender'']
      | Some g \<Rightarrow>
     (case joi_date_max_now env (map_of b ''date_of_birth'') of
        None \<Rightarrow> Inl [Key ''date_of_birth'']
      | Some d \<Rightarrow>
     (case unknown_keys [''name'', ''class_id'', ''gender'', ''date_of_birth''] b of
        k # _ \<Rightarrow> Inl [Key k]
      | [] \<Rightarrow> Inr \<lparr>v_name = n, v_class_id = c, v_gender = g, v_date_of_birth = d\<rparr>)))))"

text \<open>
  \<^verbatim>\<open>attendanceSchema\<close> (the attendance route):
  \<^verbatim>\<open>student_id: Joi.string().uuid().required(),\<close>
  \<^verbatim>\<open>date: Joi.date().required(),\<close>
  \<^verbatim>\<open>status: Joi.string().valid('Present', 'Absent', 'Late', 'Excused').required()\<close>
\<close>

record attendance_value =
  v_student_id :: string
  v_date :: int
  v_status :: string

definition attendanceSchema :: "env \<Rightarrow> body \<Rightarrow> path_elem list + attendance_value" where
  "attendanceSchema env b =
     (case joi_uuid env (map_of b ''student_id'') of
        None \<Rightarrow> Inl [Key ''student_id'']
      | Some s \<Rightarrow>
     (case joi_date env (map_of b ''date'') of
        None \<Rightarrow> Inl [Key ''date'']
      | Some d \<Rightarrow>
     (case joi_valid [''Present'', ''Absent'', ''Late'', ''Excused''] (map_of b ''status'') of
        None \<Rightarrow> Inl [Key ''status'']
      | Some x \<Rightarrow>
     (case unknown_keys [''student_id'', ''date'', ''status''] b of
        k # _ \<Rightarrow> Inl [Key k]
      | [] \<Rightarrow> Inr \<lparr>v_student_id = s, v_date = d, v_status = x\<rparr>))))"

text \<open>
  \<^verbatim>\<open>bulkAttendanceSchema\<close>: a date and a non-empty array \<^verbatim>\<open>records\<close> of objects
  \<^verbatim>\<open>{ student_id: uuid, status: one of the four }\<close>. The items are validated in order,
  then the length.
\<close>

record bulk_item =
  i_student_id :: string
  i_status :: string

definition bulk_item_schema :: "env \<Rightarrow> jsval \<Rightarrow> path_elem list + bulk_item" where
  "bulk_item_schema env v =
     (case v of
        JObj b \<Rightarrow>
          (case joi_uuid env (map_of b ''student_id'') of
             None \<Rightarrow> Inl [Key ''student_id'']
           | Some s \<Rightarrow>
          (case joi_valid [''Present'', ''Absent'', ''Late'', ''Excused''] (map_of b ''status'') of
             None \<Rightarrow> Inl [Key ''status'']
           | Some x \<Rightarrow>
          (case unknown_keys [''student_id'', ''status''] b of
             k # _ \<Rightarrow> Inl [Key k]
           | [] \<Rightarrow> Inr \<lparr>i_student_id = s, i_status = x\<rparr>)))
      | _ \<Rightarrow> Inl [])"

fun joi_items :: "env \<Rightarrow> nat \<Rightarrow> jsval list \<Rightarrow> path_elem list + bulk_item list" where
  "joi_items env i [] = Inr []"
| "joi_items env i (v # vs) =
     (case bulk_item_schema env v of
        Inl p \<Rightarrow> Inl (Idx i # p)
      | Inr x \<Rightarrow> (case joi_items env (Suc i) vs of Inl p \<Rightarrow> Inl p | Inr xs \<Rightarrow> Inr (x # xs)))"

definition joi_records :: "env \<Rightarrow> jsval option \<Rightarrow> path_elem list + bulk_item list" where
  "joi_records env v =
     (case v of
        Some (JArr vs) \<Rightarrow>
          (case joi_items env 0 vs of
             Inl p \<Rightarrow> Inl p
           | Inr xs \<Rightarrow> if 1 \<le> length xs then Inr xs else Inl [])
      | _ \<Rightarrow> Inl [])"

record bulk_value =
  v_bulk_date :: int
  v_records :: "bulk_item list"

definition bulkAttendanceSchema :: "env \<Rightarrow> body \<Rightarrow> path_elem list + bulk_value" where
  "bulkAttendanceSchema env b =
     (case joi_date env (map_of b ''date'') of
        None \<Rightarrow> Inl [Key ''date'']
      | Some d \<Rightarrow>
     (case joi_records env (map_of b ''records'') of
        Inl p \<Rightarrow> Inl (Key ''records'' # p)
      | Inr rs \<Rightarrow>
     (case unknown_keys [''date'', ''records''] b of
        k # _ \<Rightarrow> Inl [Key k]
      | [] \<Rightarrow> Inr \<lparr>v_bulk_date = d, v_records = rs\<rparr>)))"

subsection \<open>The validation rules in the words of the specification\<close>

text \<open>A string whose length lies within the bounds.\<close>

definition text_between :: "nat \<Rightarrow> nat \<Rightarrow> jsval option \<Rightarrow> bool" where
  "text_between lo hi v =
     (case v of Some (JStr s) \<Rightarrow> lo \<le> length s \<and> length s \<le> hi | _ \<Rightarrow> False)"

text \<open>One of the listed texts.\<close>

definition one_of :: "string list \<Rightarrow> jsval option \<Rightarrow> bool" where
  "one_of allowed v = (case v of Some (JStr s) \<Rightarrow> s \<in> set allowed | _ \<Rightarrow> False)"

text \<open>The number a value denotes: itself, or what a numeric text converts to.\<close>

definition numeric :: "env \<Rightarrow> jsval option \<Rightarrow> rat option" where
  "numeric env v =
     (case v of
        Some (JNum n) \<Rightarrow> Some n
      | Some (JStr s) \<Rightarrow> number_of_string env s
      | _ \<Rightarrow> None)"

text \<open>An integer within the bounds.\<close>

definition whole_between :: "env \<Rightarrow> int \<Rightarrow> int \<Rightarrow> jsval option \<Rightarrow> bool" where
  "whole_between env lo hi v =
     (case numeric env v of
        Some n \<Rightarrow> of_int \<lfloor>n\<rfloor> = n \<and> of_int lo \<le> n \<and> n \<le> of_int hi
      | None \<Rightarrow> False)"

text \<open>A text that is a UUID.\<close>

definition uuid_text :: "env \<Rightarrow> jsval option \<Rightarrow> bool" where
  "uuid_text env v = (case v of Some (JStr s) \<Rightarrow> s \<noteq> [] \<and> guid_ok env s | _ \<Rightarrow> False)"

text \<open>The instant a number or a text denotes, if it is a well-formed date.\<close>

definition parsed_date :: "env \<Rightarrow> jsval option \<Rightarrow> int option" where
  "parsed_date env v =
     (case v of
        Some (JNum n) \<Rightarrow> date_parse env (JNum n)
      | Some (JStr s) \<Rightarrow> date_parse env (JStr s)
      | _ \<Rightarrow> None)"

definition well_formed_date :: "env \<Rightarrow> jsval option \<Rightarrow> bool" where
  "well_formed_date env v = (case parsed_date env v of Some t \<Rightarrow> True | None \<Rightarrow> False)"

definition date_not_after_now :: "env \<Rightarrow> jsval option \<Rightarrow> bool" where
  "date_not_after_now env v =
     (case parsed_date env v of Some t \<Rightarrow> t \<le> now env | None \<Rightarrow> False)"

text \<open>
  The first offending field: the first declared field, in the order of the schema, whose
  rule fails; when every rule holds, the first field the schema does not declare.
\<close>

definition first_offending :: "(string \<times> bool) list \<Rightarrow> string list \<Rightarrow> string option" where
  "first_offending checks extra =
     (case filter (\<lambda>c. \<not> snd c) checks of
        c # _ \<Rightarrow> Some (fst c)
      | [] \<Rightarrow> (case extra of k # _ \<Rightarrow> Some k | [] \<Rightarrow> None))"

definition class_checks :: "env \<Rightarrow> body \<Rightarrow> (string \<times> bool) list" where
  "class_checks env b =
     [(''class_name'', text_between 1 50 (map_of b ''class_name'')),
      (''grade'', whole_between env 1 12 (map_of b ''grade''))]"

definition student_checks :: "env \<Rightarrow> body \<Rightarrow> (string \<times> bool) list" where
  "student_checks env b =
     [(''name'', text_between 2 100 (map_of b ''name'')),
      (''class_id'', uuid_text env (map_of b ''class_id'')),
      (''gender'', one_of [''Male'', ''Female''] (map_of b ''gender'')),
      (''date_of_birth'', date_not_after_now env (map_of b ''date_of_birth''))]"

definition attendance_checks :: "env \<Rightarrow> body \<Rightarrow> (string \<times> bool) list" where
  "attendance_checks env b =
     [(''student_id'', uuid_text env (map_of b ''student_id'')),
      (''date'', well_formed_date env (map_of b ''date'')),
      (''status'', one_of [''Present'', ''Absent'', ''Late'', ''Excused''] (map_of b ''status''))]"

text \<open>The error of a validation result, if it is one.\<close>

definition rejection :: "path_elem list + 'a \<Rightarrow> path_elem list option" where
  "rejection r = (case r of Inl p \<Rightarrow> Some p | Inr v \<Rightarrow> None)"

subsection \<open>The requirements as the specification's property lists them\<close>

text \<open>
  The property lists, for a class, the name (non-empty, at most 50 characters) and the
  grade (an integer in [1,12]); for a student, the name (length in [2,100]), the gender
  (Male or Female) and the date of birth (not after today); for an attendance record,
  the status (one of the four) and the date (well-formed). An integer is read as a JSON
  number without a fractional part, and a date is not after today when its calendar
  date is not after the calendar date of the clock.
\<close>

definition whole_number_between :: "int \<Rightarrow> int \<Rightarrow> jsval option \<Rightarrow> bool" where
  "whole_number_between lo hi v =
     (case v of
        Some (JNum n) \<Rightarrow> of_int \<lfloor>n\<rfloor> = n \<and> of_int lo \<le> n \<and> n \<le> of_int hi
      | _ \<Rightarrow> False)"

definition date_not_after_today :: "env \<Rightarrow> jsval option \<Rightarrow> bool" where
  "date_not_after_today env v =
     (case parsed_date env v of
        Some t \<Rightarrow> date_of_instant env t \<le> date_of_instant env (now env)
      | None \<Rightarrow> False)"

definition class_rules_as_stated :: "body \<Rightarrow> bool" where
  "class_rules_as_stated b =
     (text_between 1 50 (map_of b ''class_name'')
      \<and> whole_number_between 1 12 (map_of b ''grade''))"

definition student_rules_as_stated :: "env \<Rightarrow> body \<Rightarrow> bool" where
  "student_rules_as_stated env b =
     (text_between 2 100 (map_of b ''name'')
      \<and> one_of [''Male'', ''Female''] (map_of b ''gender'')
      \<and> date_not_after_today env (map_of b ''date_of_birth''))"

definition attendance_rules_as_stated :: "env \<Rightarrow> body \<Rightarrow> bool" where
  "attendance_rules_as_stated env b =
     (one_of [''Present'', ''Absent'', ''Late'', ''Excused''] (map_of b ''status'')
      \<and> well_formed_date env (map_of b ''date''))"

section \<open>The store operations and the write routes\<close>

text \<open>
  A route answers with an HTTP status and either a payload (\<^verbatim>\<open>success: true\<close>) or an error
  (\<^verbatim>\<open>success: false\<close>): the message of the first validation error, or a fixed text.
\<close>

datatype store_error =
  PGRST116 | ForeignKeyViolation | CardinalityViolation | InvalidTextRepresentation

datatype error_body = Validation "path_elem list" | Message string

datatype 'a response = Success nat 'a | Failure nat error_body

text \<open>
  \<^verbatim>\<open>.single()\<close> of the store's client: the result \<^verbatim>\<open>{ data, error }\<close> holds the row when
  the query yields exactly one, and otherwise no data and the error \<^verbatim>\<open>PGRST116\<close>
  (also for no row at all; it is \<^verbatim>\<open>.maybeSingle()\<close> that turns no row into empty data
  without an error).
\<close>

definition single_row :: "'a list \<Rightarrow> 'a option \<times> store_error option" where
  "single_row rows = (case rows of [r] \<Rightarrow> (Some r, None) | _ \<Rightarrow> (None, Some PGRST116))"

text \<open>
  The store's reading of a submitted text as a student identifier. The identifiers of the
  stored rows are canonical texts of uuid values, and such a text reads as itself; any
  other text reads as \<open>uuid_input\<close> says. The store compares the values: another text
  of a stored identifier (upper case, braces) finds the same student.
\<close>

definition store_uuid :: "env \<Rightarrow> store \<Rightarrow> string \<Rightarrow> string option" where
  "store_uuid env st x =
     (if x \<in> set (map s_id (students st)) then Some x else uuid_input env x)"

text \<open>The store's reading of a text as a value of \<^verbatim>\<open>attendance_status\<close>.\<close>

fun status_of_string :: "string \<Rightarrow> status option" where
  "status_of_string s =
     (if s = ''Present'' then Some Present
      else if s = ''Absent'' then Some Absent
      else if s = ''Late'' then Some Late
      else if s = ''Excused'' then Some Excused
      else None)"

text \<open>The object \<^verbatim>\<open>{ student_id, date, status }\<close> handed to \<^verbatim>\<open>upsert\<close>.\<close>

record attendance_input =
  in_student_id :: string
  in_date :: int
  in_status :: string

definition same_key :: "string \<Rightarrow> date \<Rightarrow> attendance_row \<Rightarrow> bool" where
  "same_key sid d r = (a_student_id r = sid \<and> a_date r = d)"

text \<open>
  \<^verbatim>\<open>INSERT ... ON CONFLICT (student_id, date) DO UPDATE\<close> for one row
  (\<^verbatim>\<open>ignoreDuplicates: false\<close>): a stored row with the same student and date takes the new
  status and keeps its identifier and creation time; otherwise a new row is appended
  with a fresh identifier and the store's current time.
\<close>

definition upsert_one ::
  "int \<Rightarrow> attendance_row list \<times> nat \<Rightarrow> string \<times> date \<times> status \<Rightarrow> attendance_row list \<times> nat" where
  "upsert_one t acc row =
     (case acc of (tbl, n) \<Rightarrow> case row of (sid, d, st) \<Rightarrow>
        if list_ex (same_key sid d) tbl
        then (map (\<lambda>r. if same_key sid d r then r\<lparr>a_status := st\<rparr> else r) tbl, n)
        else (tbl @ [\<lparr>a_id = n, a_student_id = sid, a_date = d, a_status = st,
                       a_created_at = t\<rparr>], Suc n))"

definition to_store_row ::
  "env \<Rightarrow> store \<Rightarrow> attendance_input \<Rightarrow> (string \<times> date \<times> status) option" where
  "to_store_row env st v =
     (case store_uuid env st (in_student_id v) of
        None \<Rightarrow> None
      | Some u \<Rightarrow>
          map_option (\<lambda>x. (u, date_of_instant env (in_date v), x))
            (status_of_string (in_status v)))"

text \<open>
  \<^verbatim>\<open>.from('attendance').upsert(rows, { onConflict: 'student_id,date' }).select(...)\<close>: one
  statement for the whole batch. It fails as a whole, leaving the table as it was, when
  an identifier or a status is not a text of its type, when a student does not exist
  (foreign key), or when two rows of the batch have the same student and date (the
  statement cannot update a row twice). Otherwise it returns the rows it wrote, in the
  order of the batch. The related student and class, which the routes select along with
  each row, are left out of the result.
\<close>

definition upsert ::
  "env \<Rightarrow> store \<Rightarrow> attendance_input list \<Rightarrow> store_error + (attendance_row list \<times> store)" where
  "upsert env st vals =
     (case those (map (to_store_row env st) vals) of
        None \<Rightarrow> Inl InvalidTextRepresentation
      | Some rows \<Rightarrow>
          if \<not> list_all (\<lambda>row. fst row \<in> set (map s_id (students st))) rows
          then Inl ForeignKeyViolation
          else if \<not> distinct (map (\<lambda>row. (fst row, fst (snd row))) rows)
          then Inl CardinalityViolation
          else
            (case foldl (upsert_one (db_now env)) (attendance st, next_id st) rows of
               (tbl, n) \<Rightarrow>
                 Inr (concat (map (\<lambda>row. filter (same_key (fst row) (fst (snd row))) tbl) rows),
                      st\<lparr>attendance := tbl, next_id := n\<rparr>)))"

text \<open>
  POST /api/attendance (\<^verbatim>\<open>server/routes/attendance.js\<close>): validate the body, look the
  student up with \<^verbatim>\<open>.eq('id', value.student_id).single()\<close> reading only \<^verbatim>\<open>data\<close> (which is
  empty also when the store rejects the identifier), upsert the one row and read it back
  with \<^verbatim>\<open>.single()\<close>. An error of the upsert is thrown and caught: status 500.
\<close>

definition post_attendance ::
  "env \<Rightarrow> store \<Rightarrow> body \<Rightarrow> attendance_row response \<times> store" where
  "post_attendance env st b =
     (case attendanceSchema env b of
        Inl p \<Rightarrow> (Failure 400 (Validation p), st)
      | Inr v \<Rightarrow>
          (case (case store_uuid env st (v_student_id v) of
                   None \<Rightarrow> None
                 | Some u \<Rightarrow> fst (single_row (filter (\<lambda>s. s_id s = u) (students st)))) of
             None \<Rightarrow> (Failure 400 (Message ''Student not found''), st)
           | Some student \<Rightarrow>
               (case upsert env st
                       [\<lparr>in_student_id = v_student_id v, in_date = v_date v,
                         in_status = v_status v\<rparr>] of
                  Inl e \<Rightarrow> (Failure 500 (Message ''Failed to record attendance''), st)
                | Inr (rows, st') \<Rightarrow>
                    (case single_row rows of
                       (Some data, None) \<Rightarrow> (Success 201 data, st')
                     | _ \<Rightarrow> (Failure 500 (Message ''Failed to record attendance''), st)))))"

text \<open>
  \<^verbatim>\<open>value.records.map(record => ({ ...record, date: value.date }))\<close>: every record of the
  submission gets the one date of the submission.
\<close>

definition stamp :: "int \<Rightarrow> bulk_item list \<Rightarrow> attendance_input list" where
  "stamp d rs =
     map (\<lambda>r. \<lparr>in_student_id = i_student_id r, in_date = d, in_status = i_status r\<rparr>) rs"

text \<open>
  POST /api/attendance/bulk: validate, stamp, then
  \<^verbatim>\<open>const { data: students } = ... .from('students').select('id').in('id', studentIds)\<close>.
  The query yields the student rows whose identifier is among the submitted ones, each
  row once; when the store rejects one of the submitted texts it yields an error and no
  data. The route does not read the error: \<^verbatim>\<open>students.length\<close> then throws, which is
  caught with status 500. Otherwise the route compares the number of the rows found with
  the number of submitted identifiers, and upserts the batch only when the two are equal.
\<close>

definition post_bulk ::
  "env \<Rightarrow> store \<Rightarrow> body \<Rightarrow> attendance_row list response \<times> store" where
  "post_bulk env st b =
     (case bulkAttendanceSchema env b of
        Inl p \<Rightarrow> (Failure 400 (Validation p), st)
      | Inr v \<Rightarrow>
          (let attendanceRecords = stamp (v_bulk_date v) (v_records v);
               studentIds = map in_student_id attendanceRecords
           in case those (map (store_uuid env st) studentIds) of
                None \<Rightarrow> (Failure 500 (Message ''Failed to record bulk attendance''), st)
              | Some ids \<Rightarrow>
                  (let found = filter (\<lambda>s. s_id s \<in> set ids) (students st)
                   in if length found \<noteq> length studentIds
                      then (Failure 400 (Message ''One or more students not found''), st)
                      else
                        (case upsert env st attendanceRecords of
                           Inl e \<Rightarrow>
                             (Failure 500 (Message ''Failed to record bulk attendance''), st)
                         | Inr (rows, st') \<Rightarrow> (Success 201 rows, st')))))"

section \<open>Deleting a class (the classes route, DELETE /:id)\<close>

text \<open>
  The removal of the class row, with the cascade of the schema
  (\<^verbatim>\<open>ON DELETE CASCADE\<close> from classes to students and from students to attendance).
\<close>

definition delete_rows :: "string \<Rightarrow> store \<Rightarrow> store" where
  "delete_rows cid st =
     (let gone = map s_id (filter (\<lambda>s. s_class_id s = cid) (students st))
      in st\<lparr>classes := filter (\<lambda>c. c_id c \<noteq> cid) (classes st),
            students := filter (\<lambda>s. s_class_id s \<noteq> cid) (students st),
            attendance := filter (\<lambda>a. a_student_id a \<notin> set gone) (attendance st)\<rparr>)"

text \<open>
  \<^verbatim>\<open>.from('students').select('id').eq('class_id', id).limit(1)\<close>, and a rejection when a
  student is found; then
  \<^verbatim>\<open>.from('classes').delete().eq('id', id).select().single()\<close>, followed by
  \<^verbatim>\<open>if (error) throw error;\<close> (caught: status 500) and
  \<^verbatim>\<open>if (!data) return res.status(404)...\<close>. A request for a single row that does not
  yield exactly one row is an error of the store and changes nothing.
\<close>

definition delete_class :: "store \<Rightarrow> string \<Rightarrow> unit response \<times> store" where
  "delete_class st cid =
     (let found = take 1 (filter (\<lambda>s. s_class_id s = cid) (students st))
      in if 0 < length found
         then (Failure 400 (Message ''Cannot delete class with existing students''), st)
         else
           (case single_row (filter (\<lambda>c. c_id c = cid) (classes st)) of
              (_, Some e) \<Rightarrow> (Failure 500 (Message ''Failed to delete class''), st)
            | (None, None) \<Rightarrow> (Failure 404 (Message ''Class not found''), delete_rows cid st)
            | (Some data, None) \<Rightarrow> (Success 200 (), delete_rows cid st)))"

section \<open>The class-and-date view (GET /class/:classId/date/:date, \<^verbatim>\<open>db.getClassAttendanceForDate\<close>)\<close>







section \<open>Listing attendance (GET /api/attendance)\<close>

text \<open>
  \<^verbatim>\<open>const { ..., limit = 100, offset = 0 } = req.query;\<close> A parameter of the query string
  is a text; the defaults are numbers. The two kinds of value meet in
  \<^verbatim>\<open>.range(offset, offset + limit - 1)\<close>, so the model keeps both.
\<close>

datatype jsnum = Num int | Str string

text \<open>The decimal numeral of a natural number, and of an integer.\<close>

fun show_nat :: "nat \<Rightarrow> string" where
  "show_nat n =
     (if n < 10 then [''0123456789'' ! n]
      else show_nat (n div 10) @ [''0123456789'' ! (n mod 10)])"

declare show_nat.simps [simp del]

definition show_int :: "int \<Rightarrow> string" where
  "show_int i = (if i < 0 then CHR ''-'' # show_nat (nat (- i)) else show_nat (nat i))"

text \<open>The value of a decimal digit, by its position among the ten digits.\<close>

definition digit_val :: "char \<Rightarrow> nat option" where
  "digit_val c = map_of (zip ''0123456789'' [0, 1, 2, 3, 4, 5, 6, 7, 8, 9]) c"

fun digits_value :: "nat \<Rightarrow> string \<Rightarrow> nat option" where
  "digits_value acc [] = Some acc"
| "digits_value acc (c # cs) =
     (case digit_val c of None \<Rightarrow> None | Some d \<Rightarrow> digits_value (10 * acc + d) cs)"

text \<open>
  \<^verbatim>\<open>ToString\<close> and \<^verbatim>\<open>ToNumber\<close>. A text of decimal digits denotes its number (the empty
  text denotes 0); the further forms \<^verbatim>\<open>ToNumber\<close> reads (signs, fractions, exponents,
  blanks) do not arise, since a request of the model carries the numerals of natural
  numbers, and read here as no number, which is \<^verbatim>\<open>NaN\<close>.
\<close>

definition to_string :: "jsnum \<Rightarrow> string" where
  "to_string v = (case v of Num i \<Rightarrow> show_int i | Str s \<Rightarrow> s)"

definition to_number :: "jsnum \<Rightarrow> int option" where
  "to_number v = (case v of Num i \<Rightarrow> Some i | Str s \<Rightarrow> map_option int (digits_value 0 s))"

text \<open>
  The operator \<^verbatim>\<open>+\<close> adds two numbers and otherwise concatenates the texts of its
  operands; the operator \<^verbatim>\<open>-\<close> subtracts the numbers of its operands.
\<close>

definition js_add :: "jsnum \<Rightarrow> jsnum \<Rightarrow> jsnum" where
  "js_add a b =
     (case (a, b) of
        (Num i, Num j) \<Rightarrow> Num (i + j)
      | _ \<Rightarrow> Str (to_string a @ to_string b))"

definition js_sub :: "jsnum \<Rightarrow> jsnum \<Rightarrow> int option" where
  "js_sub a b =
     (case (to_number a, to_number b) of
        (Some i, Some j) \<Rightarrow> Some (i - j)
      | _ \<Rightarrow> None)"

text \<open>
  The query of a request. The filters are typed: a date or a status that is supplied is
  a well-formed one, and an identifier that is supplied is a text that the store reads
  as itself (a request with any other text, which the store may reject, is outside this
  record). \<open>q_limit\<close> and \<open>q_offset\<close> hold the natural number whose decimal numeral the
  client wrote, when it wrote one; the numerals are short enough for the arithmetic of
  the route, which is that of binary64, to be exact on them.
\<close>

record list_query =
  q_student_id :: "string option"
  q_class_id :: "string option"
  q_date :: "date option"
  q_start_date :: "date option"
  q_end_date :: "date option"
  q_status :: "status option"
  q_limit :: "nat option"
  q_offset :: "nat option"

text \<open>A row of the answer: the attendance row and the embedded \<^verbatim>\<open>students\<close> object.\<close>

record listed_row =
  l_row :: attendance_row
  l_students :: "student_row option"

record pagination =
  p_limit :: int
  p_offset :: int

text \<open>\<^verbatim>\<open>if (p) query = query.eq(...)\<close>: a filter is applied when its parameter is supplied.\<close>

definition when_given :: "'p option \<Rightarrow> ('p \<Rightarrow> 'r \<Rightarrow> bool) \<Rightarrow> 'r list \<Rightarrow> 'r list" where
  "when_given p test rows = (case p of None \<Rightarrow> rows | Some x \<Rightarrow> filter (test x) rows)"

text \<open>An empty text is falsy.\<close>

definition truthy :: "string option \<Rightarrow> string option" where
  "truthy p = (case p of Some s \<Rightarrow> if s = [] then None else Some s | None \<Rightarrow> None)"

text \<open>
  \<^verbatim>\<open>.order('date', { ascending: false }).order('created_at', { ascending: false })\<close>
\<close>

definition order_desc :: "attendance_row list \<Rightarrow> attendance_row list" where
  "order_desc rows = rev (sort_key (\<lambda>a. (a_date a, a_created_at a)) rows)"

text \<open>\<^verbatim>\<open>.range(from, to)\<close>: the rows at the positions \<open>from\<close> to \<open>to\<close>, both included.\<close>

definition range_rows :: "int \<Rightarrow> int \<Rightarrow> 'r list \<Rightarrow> 'r list" where
  "range_rows from to rows = take (nat (to - from + 1)) (drop (nat from) rows)"

text \<open>
  The embedded student of a row. The filter \<^verbatim>\<open>.eq('students.class_id', class_id)\<close> is a
  filter on the embedded resource, which is not an inner join: it empties the embedded
  object of a row whose student is in another class, and keeps the row.
\<close>

definition embed_student :: "store \<Rightarrow> string option \<Rightarrow> attendance_row \<Rightarrow> listed_row" where
  "embed_student st class_id a =
     \<lparr>l_row = a,
      l_students =
        (case find (\<lambda>s. s_id s = a_student_id a) (students st) of
           None \<Rightarrow> None
         | Some s \<Rightarrow>
             (case class_id of
                None \<Rightarrow> Some s
              | Some c \<Rightarrow> if s_class_id s = c then Some s else None))\<rparr>"

text \<open>
  The route: the filters, the ordering,
  \<^verbatim>\<open>.range(offset, offset + limit - 1)\<close>, and the answer with
  \<^verbatim>\<open>pagination: { limit: parseInt(limit), offset: parseInt(offset) }\<close>.
\<close>

definition list_attendance ::
  "store \<Rightarrow> list_query \<Rightarrow> (listed_row list \<times> pagination) response" where
  "list_attendance st q =
     (let limit = (case q_limit q of None \<Rightarrow> Num 100 | Some n \<Rightarrow> Str (show_nat n));
          offset = (case q_offset q of None \<Rightarrow> Num 0 | Some n \<Rightarrow> Str (show_nat n));
          rows =
            when_given (q_status q) (\<lambda>x a. a_status a = x)
              (when_given (q_end_date q) (\<lambda>x a. a_date a \<le> x)
                (when_given (q_start_date q) (\<lambda>x a. x \<le> a_date a)
                  (when_given (q_date q) (\<lambda>x a. a_date a = x)
                    (when_given (truthy (q_student_id q)) (\<lambda>x a. a_student_id a = x)
                      (attendance st)))))
      in case (to_number offset, js_sub (js_add offset limit) (Num 1),
               to_number limit) of
           (Some from, Some to, Some l) \<Rightarrow>
             Success 200
               (map (embed_student st (truthy (q_class_id q))) (range_rows from to (order_desc rows)),
                \<lparr>p_limit = l, p_offset = from\<rparr>)
         | _ \<Rightarrow> Failure 500 (Message ''Failed to fetch attendance records''))"

text \<open>The identifiers of the rows of an answer, in order.\<close>

definition page_ids :: "(listed_row list \<times> pagination) response \<Rightarrow> nat list" where
  "page_ids r =
     (case r of Success c (rows, p) \<Rightarrow> map (\<lambda>x. a_id (l_row x)) rows | Failure c e \<Rightarrow> [])"

section \<open>Sample data\<close>

text \<open>
  One instance of the parameters and of the store, on which the theorems below are
  exercised. The store has the class 3A with the students Liam and Emma (stored in this
  order) and three attendance rows of Emma. The clock stands at noon of 2024-01-01 (UTC).

  The identifiers of the instance are texts of 36 characters: five groups of 8, 4, 4, 4
  and 12 hexadecimal digits with one separator between them. On these texts the library's
  pattern admits the hyphen and the colon as the separator, and the store reads the texts
  with hyphens only, in either case of the letters, as the text in lower case.
\<close>

definition hex_digit :: "char \<Rightarrow> bool" where
  "hex_digit c = (c \<in> set ''0123456789abcdefABCDEF'')"

definition lower_hex :: "char \<Rightarrow> char" where
  "lower_hex c = (case map_of (zip ''ABCDEF'' ''abcdef'') c of Some d \<Rightarrow> d | None \<Rightarrow> c)"

definition separated_hex :: "char \<Rightarrow> string \<Rightarrow> bool" where
  "separated_hex sep s =
     (length s = 36
      \<and> list_all hex_digit (take 8 s) \<and> s ! 8 = sep
      \<and> list_all hex_digit (take 4 (drop 9 s)) \<and> s ! 13 = sep
      \<and> list_all hex_digit (take 4 (drop 14 s)) \<and> s ! 18 = sep
      \<and> list_all hex_digit (take 4 (drop 19 s)) \<and> s ! 23 = sep
      \<and> list_all hex_digit (drop 24 s))"

definition emma_id :: string where
  "emma_id = ''11111111-1111-4111-8111-111111111111''"

definition liam_id :: string where
  "liam_id = ''22222222-2222-4222-8222-222222222222''"

definition ghost_id :: string where
  "ghost_id = ''99999999-9999-4999-8999-999999999999''"

definition colon_id :: string where
  "colon_id = ''99999999:9999:4999:8999:999999999999''"

definition class_3a_id :: string where
  "class_3a_id = ''aaaaaaaa-aaaa-4aaa-8aaa-aaaaaaaaaaaa''"

definition class_9z_id :: string where
  "class_9z_id = ''bbbbbbbb-bbbb-4bbb-8bbb-bbbbbbbbbbbb''"

definition demo_env :: env where
  "demo_env =
     \<lparr>guid_ok = (\<lambda>s. separated_hex CHR ''-'' s \<or> separated_hex CHR '':'' s),
      number_of_string = (\<lambda>s. if s = ''7'' then Some 7 else None),
      date_parse =
        (\<lambda>v. case v of
               JNum n \<Rightarrow> Some \<lfloor>n\<rfloor>
             | JStr s \<Rightarrow> if s = ''2024-01-01'' then Some 1704067200000 else None
             | _ \<Rightarrow> None),
      now = 1704110400000,
      date_of_instant =
        (\<lambda>t. if 1426377600000 \<le> t \<and> t < 1426464000000 then (2015, 3, 15)
             else if 1704067200000 \<le> t \<and> t < 1704153600000 then (2024, 1, 1)
             else if 1704153600000 \<le> t \<and> t < 1704240000000 then (2024, 1, 2)
             else (1970, 1, 1)),
      db_now = 1704110400000,
      uuid_input = (\<lambda>s. if separated_hex CHR ''-'' s then Some (map lower_hex s) else None)\<rparr>"

definition demo_store :: store where
  "demo_store =
     \<lparr>classes =
        [\<lparr>c_id = class_3a_id, c_class_name = ''3A'', c_grade = 3, c_created_at = 0\<rparr>],
      students =
        [\<lparr>s_id = liam_id, s_name = ''Liam Smith'', s_class_id = class_3a_id, s_gender = Male,
           s_date_of_birth = (2015, 5, 22), s_created_at = 0\<rparr>,
         \<lparr>s_id = emma_id, s_name = ''Emma Johnson'', s_class_id = class_3a_id,
           s_gender = Female, s_date_of_birth = (2015, 3, 15), s_created_at = 0\<rparr>],
      attendance =
        [\<lparr>a_id = 0, a_student_id = emma_id, a_date = (2024, 1, 1), a_status = Present,
           a_created_at = 10\<rparr>,
         \<lparr>a_id = 1, a_student_id = emma_id, a_date = (2024, 1, 2), a_status = Absent,
           a_created_at = 20\<rparr>,
         \<lparr>a_id = 2, a_student_id = emma_id, a_date = (2024, 1, 3), a_status = Late,
           a_created_at = 30\<rparr>],
      next_id = 3\<rparr>"

definition bulk_with_unknown :: body where
  "bulk_with_unknown =
     [(''date'', JStr ''2024-01-01''),
      (''records'',
         JArr [JObj [(''student_id'', JStr emma_id), (''status'', JStr ''Present'')],
               JObj [(''student_id'', JStr ghost_id), (''status'', JStr ''Absent'')]])]"

definition bulk_with_colon_id :: body where
  "bulk_with_colon_id =
     [(''date'', JStr ''2024-01-01''),
      (''records'',
         JArr [JObj [(''student_id'', JStr emma_id), (''status'', JStr ''Present'')],
               JObj [(''student_id'', JStr colon_id), (''status'', JStr ''Absent'')]])]"

definition bulk_with_repeat :: body where
  "bulk_with_repeat =
     [(''date'', JStr ''2024-01-01''),
      (''records'',
         JArr [JObj [(''student_id'', JStr emma_id), (''status'', JStr ''Present'')],
               JObj [(''student_id'', JStr emma_id), (''status'', JStr ''Absent'')]])]"



definition student_without_class :: body where
  "student_without_class =
     [(''name'', JStr ''Emma Johnson''), (''gender'', JStr ''Female''),
      (''date_of_birth'', JNum 1426377600000)]"

definition attendance_without_student :: body where
  "attendance_without_student = [(''date'', JStr ''2024-01-01''), (''status'', JStr ''Late'')]"

definition write_with_colon_id :: body where
  "write_with_colon_id =
     [(''student_id'', JStr colon_id), (''date'', JStr ''2024-01-01''),
      (''status'', JStr ''Absent'')]"

definition student_born_later_today :: body where
  "student_born_later_today =
     [(''name'', JStr ''Emma Johnson''), (''class_id'', JStr class_3a_id),
      (''gender'', JStr ''Female''), (''date_of_birth'', JNum 1704114000000)]"

definition class_with_extra_field :: body where
  "class_with_extra_field =
     [(''class_name'', JStr ''3A''), (''grade'', JNum 3), (''room'', JStr ''12'')]"

definition class_with_text_grade :: body where
  "class_with_text_grade = [(''class_name'', JStr ''3A''), (''grade'', JStr ''7'')]"

definition no_filters :: list_query where
  "no_filters =
     \<lparr>q_student_id = None, q_class_id = None, q_date = None, q_start_date = None,
      q_end_date = None, q_status = None, q_limit = None, q_offset = None\<rparr>"

definition day_row :: "status \<Rightarrow> attendance_row" where
  "day_row s =
     \<lparr>a_id = 0, a_student_id = emma_id, a_date = (2024, 1, 1), a_status = s, a_created_at = 0\<rparr>"

definition demo_day :: "attendance_row list" where
  "demo_day = replicate 7 (day_row Present) @ replicate 3 (day_row Absent) @ [day_row Late]"

section \<open>Chart aggregation: proofs\<close>

lemma set_first_seen: "set (first_seen xs) = set xs"
  by (induction xs rule: first_seen.induct) auto

lemma distinct_first_seen: "distinct (first_seen xs)"
  by (induction xs rule: first_seen.induct) (auto simp: set_first_seen)

lemma first_seen_snoc:
  "first_seen (xs @ [y]) = (if y \<in> set xs then first_seen xs else first_seen xs @ [y])"
  by (induction xs rule: first_seen.induct) (auto simp: set_first_seen)

lemma counts_for_snoc:
  "counts_for (data @ [r]) k =
     (if k = r_date r then incr (r_status r) (counts_for data k) else counts_for data k)"
  by (cases "r_status r") (auto simp: counts_for_def count_rows_def)

lemma counts_for_absent: "d \<notin> r_date ` set data \<Longrightarrow> counts_for data d = zero_counts"
  by (auto simp: counts_for_def count_rows_def zero_counts_def filter_empty_conv)

lemma daily_incr_map:
  "distinct ks \<Longrightarrow> daily_incr d s (map (\<lambda>k. (k, f k)) ks) =
     (if d \<in> set ks then map (\<lambda>k. (k, if k = d then incr s (f k) else f k)) ks
      else map (\<lambda>k. (k, f k)) ks @ [(d, incr s zero_counts)])"
  by (induction ks) auto

lemma daily_foldl:
  "daily (foldl chart_step cd data) =
     foldl (\<lambda>al r. daily_incr (r_date r) (r_status r) al) (daily cd) data"
  by (induction data arbitrary: cd) (auto simp: chart_step_def)

lemma daily_char:
  "daily (foldl chart_step chart_init data) =
     map (\<lambda>d. (d, counts_for data d)) (first_seen (map r_date data))"
proof (induction data rule: rev_induct)
  case Nil
  then show ?case by (simp add: chart_init_def)
next
  case (snoc r data)
  have "daily (foldl chart_step chart_init (data @ [r])) =
        daily_incr (r_date r) (r_status r) (daily (foldl chart_step chart_init data))"
    by (simp add: chart_step_def)
  also have "\<dots> = daily_incr (r_date r) (r_status r)
        (map (\<lambda>d. (d, counts_for data d)) (first_seen (map r_date data)))"
    by (simp only: snoc.IH)
  finally have step: "daily (foldl chart_step chart_init (data @ [r])) =
        daily_incr (r_date r) (r_status r)
        (map (\<lambda>d. (d, counts_for data d)) (first_seen (map r_date data)))" .
  show ?case
  proof (cases "r_date r \<in> r_date ` set data")
    case True
    then show ?thesis
      unfolding step
      by (simp add: daily_incr_map distinct_first_seen set_first_seen first_seen_snoc
          counts_for_snoc)
  next
    case False
    then have "\<And>x. x \<in> set data \<Longrightarrow> r_date x \<noteq> r_date r" by (metis imageI)
    with False show ?thesis
      unfolding step
      by (simp add: daily_incr_map distinct_first_seen set_first_seen first_seen_snoc
          counts_for_snoc counts_for_absent)
  qed
qed

lemma trends_char:
  "trends (chart_aggregation data) =
     map (\<lambda>d. to_trend (d, counts_for data d)) (first_seen (map r_date data))"
  by (simp add: chart_aggregation_def Let_def daily_char)

text \<open>
  C1. For the rows (2024-01-01, Present), (2024-01-01, Absent), (2024-01-02, Present) the
  aggregation yields the per-date summaries
  {2024-01-01, Present 1, Absent 1, Late 0, Excused 0, total 2} and
  {2024-01-02, Present 1, Absent 0, Late 0, Excused 0, total 1}, in that order, and the
  overall status counts {Present 2, Absent 1, Late 0, Excused 0}.
\<close>

theorem chart_aggregation_example:
  "trends (chart_aggregation
     [\<lparr>r_date = (2024, 1, 1), r_status = Present\<rparr>,
      \<lparr>r_date = (2024, 1, 1), r_status = Absent\<rparr>,
      \<lparr>r_date = (2024, 1, 2), r_status = Present\<rparr>])
   = [\<lparr>t_date = (2024, 1, 1), t_Present = 1, t_Absent = 1, t_Late = 0, t_Excused = 0,
        t_total = 2\<rparr>,
      \<lparr>t_date = (2024, 1, 2), t_Present = 1, t_Absent = 0, t_Late = 0, t_Excused = 0,
        t_total = 1\<rparr>]
   \<and> statusCounts (chart_aggregation
     [\<lparr>r_date = (2024, 1, 1), r_status = Present\<rparr>,
      \<lparr>r_date = (2024, 1, 1), r_status = Absent\<rparr>,
      \<lparr>r_date = (2024, 1, 2), r_status = Present\<rparr>])
   = \<lparr>cPresent = 2, cAbsent = 1, cLate = 0, cExcused = 0\<rparr>"
  by (simp add: chart_aggregation_def chart_step_def chart_init_def zero_counts_def
      to_trend_def counts_values_def Let_def)

text \<open>
  C2. For every list of rows, the per-date summary sequence has exactly one entry per
  distinct date of the input, in the order of the dates' first occurrences; the four
  counts of an entry are the numbers of input rows with that date and that status, its
  total is the sum of its four counts, and there is no entry for a date without rows
  (every entry has a positive total: nothing is zero-filled).
\<close>

theorem chart_trends_per_date:
  "map t_date (trends (chart_aggregation data)) = first_seen (map r_date data)
   \<and> distinct (map t_date (trends (chart_aggregation data)))
   \<and> set (map t_date (trends (chart_aggregation data))) = r_date ` set data
   \<and> (\<forall>t \<in> set (trends (chart_aggregation data)).
        t_Present t = count_rows data (t_date t) Present
      \<and> t_Absent t = count_rows data (t_date t) Absent
      \<and> t_Late t = count_rows data (t_date t) Late
      \<and> t_Excused t = count_rows data (t_date t) Excused
      \<and> t_total t = t_Present t + t_Absent t + t_Late t + t_Excused t
      \<and> 0 < t_total t)"
proof -
  have keys: "map t_date (trends (chart_aggregation data)) = first_seen (map r_date data)"
    by (simp add: trends_char to_trend_def comp_def)
  have ent: "\<And>t. t \<in> set (trends (chart_aggregation data)) \<Longrightarrow>
        t_Present t = count_rows data (t_date t) Present
      \<and> t_Absent t = count_rows data (t_date t) Absent
      \<and> t_Late t = count_rows data (t_date t) Late
      \<and> t_Excused t = count_rows data (t_date t) Excused
      \<and> t_total t = t_Present t + t_Absent t + t_Late t + t_Excused t"
    by (auto simp: trends_char to_trend_def counts_for_def counts_values_def)
  have pos: "\<And>t. t \<in> set (trends (chart_aggregation data)) \<Longrightarrow> 0 < t_total t"
  proof -
    fix t assume t: "t \<in> set (trends (chart_aggregation data))"
    then have "t_date t \<in> set (map t_date (trends (chart_aggregation data)))" by simp
    then have "t_date t \<in> r_date ` set data" by (simp add: keys set_first_seen)
    then obtain r where r: "r \<in> set data" "r_date r = t_date t" by auto
    then have "r \<in> set (filter (\<lambda>x. r_date x = t_date t \<and> r_status x = r_status r) data)"
      by simp
    then have "0 < count_rows data (t_date t) (r_status r)"
      unfolding count_rows_def by (metis length_pos_if_in_set)
    with ent [OF t] show "0 < t_total t" by (cases "r_status r") auto
  qed
  show ?thesis
    using keys ent pos by (simp add: distinct_first_seen set_first_seen)
qed

theorem chart_trends_per_date_witness:
  "map t_date (trends (chart_aggregation
     [\<lparr>r_date = (2024, 1, 2), r_status = Late\<rparr>,
      \<lparr>r_date = (2024, 1, 1), r_status = Present\<rparr>,
      \<lparr>r_date = (2024, 1, 2), r_status = Absent\<rparr>])) = [(2024, 1, 2), (2024, 1, 1)]
   \<and> (\<exists>t \<in> set (trends (chart_aggregation
     [\<lparr>r_date = (2024, 1, 2), r_status = Late\<rparr>,
      \<lparr>r_date = (2024, 1, 1), r_status = Present\<rparr>,
      \<lparr>r_date = (2024, 1, 2), r_status = Absent\<rparr>])).
        t_date t = (2024, 1, 2) \<and> t_Present t = 0 \<and> t_Absent t = 1 \<and> t_Late t = 1
        \<and> t_Excused t = 0 \<and> t_total t = 2)"
proof -
  let ?data = "[\<lparr>r_date = (2024, 1, 2), r_status = Late\<rparr>,
      \<lparr>r_date = (2024, 1, 1), r_status = Present\<rparr>,
      \<lparr>r_date = (2024, 1, 2), r_status = Absent\<rparr>]"
  have fs: "first_seen (map r_date ?data) = [(2024, 1, 2), (2024, 1, 1)]"
    by simp
  note inst = chart_trends_per_date [of ?data]
  from inst have keys: "map t_date (trends (chart_aggregation ?data)) = first_seen (map r_date ?data)"
    by (rule conjunct1)
  from inst have ent: "\<forall>t \<in> set (trends (chart_aggregation ?data)).
        t_Present t = count_rows ?data (t_date t) Present
      \<and> t_Absent t = count_rows ?data (t_date t) Absent
      \<and> t_Late t = count_rows ?data (t_date t) Late
      \<and> t_Excused t = count_rows ?data (t_date t) Excused
      \<and> t_total t = t_Present t + t_Absent t + t_Late t + t_Excused t"
    by blast
  have "(2024, 1, 2) \<in> set (map t_date (trends (chart_aggregation ?data)))"
    unfolding keys fs by simp
  then obtain t where t: "t \<in> set (trends (chart_aggregation ?data))" "t_date t = (2024, 1, 2)"
    by auto
  from ent t have "t_Present t = 0 \<and> t_Absent t = 1 \<and> t_Late t = 1 \<and> t_Excused t = 0
      \<and> t_total t = 2"
    by (simp add: count_rows_def)
  with t keys [unfolded fs] show ?thesis
    by blast
qed

section \<open>Proofs: the dashboard attendance rate\<close>

text \<open>Rounding to an integer moves a value by at most one half.\<close>

lemma round_even_error: "\<bar>of_int (round_even z) - z\<bar> \<le> 1 / 2"
proof -
  have "of_int \<lfloor>z\<rfloor> \<le> z" "z < of_int \<lfloor>z\<rfloor> + 1" by linarith+
  then show ?thesis
    by (auto simp: round_even_def Let_def abs_le_iff)
qed

lemma ilog2_lower:
  assumes "0 < x"
  shows "2 powi (ilog2 x) \<le> x"
proof (cases "1 \<le> x")
  case True
  then have pos: "0 < \<lfloor>x\<rfloor>" by linarith
  from bitlen_bounds [OF pos] have "2 ^ nat (bitlen \<lfloor>x\<rfloor> - 1) \<le> \<lfloor>x\<rfloor>" by simp
  then have "(of_int (2 ^ nat (bitlen \<lfloor>x\<rfloor> - 1)) :: rat) \<le> of_int \<lfloor>x\<rfloor>"
    by (simp only: of_int_le_iff)
  then have "(2::rat) ^ nat (bitlen \<lfloor>x\<rfloor> - 1) \<le> of_int \<lfloor>x\<rfloor>"
    by (simp only: of_int_power of_int_numeral)
  also have "\<dots> \<le> x" by linarith
  finally have "(2::rat) ^ nat (bitlen \<lfloor>x\<rfloor> - 1) \<le> x" .
  moreover from pos have "1 \<le> bitlen \<lfloor>x\<rfloor>" by (auto simp: bitlen_alt_def)
  ultimately show ?thesis
    using True by (simp add: ilog2_def power_int_def)
next
  case False
  let ?m = "\<lceil>1 / x\<rceil>"
  from False assms have y: "1 < 1 / x" by (simp add: field_simps)
  then have m: "2 \<le> ?m" by linarith
  then have pos: "0 < ?m - 1" by simp
  from bitlen_bounds [OF pos] have "?m - 1 < 2 ^ nat (bitlen (?m - 1))" by simp
  then have "?m \<le> 2 ^ nat (bitlen (?m - 1))" by simp
  then have "(of_int ?m :: rat) \<le> of_int (2 ^ nat (bitlen (?m - 1)))"
    by (simp only: of_int_le_iff)
  then have "(of_int ?m :: rat) \<le> 2 ^ nat (bitlen (?m - 1))"
    by (simp only: of_int_power of_int_numeral)
  moreover have "1 / x \<le> of_int ?m" by linarith
  ultimately have "1 / x \<le> 2 ^ nat (bitlen (?m - 1))" by (rule order_trans [rotated])
  then have "1 / 2 ^ nat (bitlen (?m - 1)) \<le> x"
    using assms by (simp add: field_simps)
  moreover have "(2::rat) powi (- bitlen (?m - 1)) = 1 / 2 ^ nat (bitlen (?m - 1))"
    by (simp only: power_int_minus_divide power_int_nonneg_exp [OF bitlen_nonneg])
  ultimately show ?thesis
    using False by (simp add: ilog2_def)
qed

lemma ilog2_upper:
  assumes "0 < x"
  shows "x < 2 powi (ilog2 x + 1)"
proof (cases "1 \<le> x")
  case True
  then have pos: "0 < \<lfloor>x\<rfloor>" by linarith
  from bitlen_bounds [OF pos] have "\<lfloor>x\<rfloor> + 1 \<le> 2 ^ nat (bitlen \<lfloor>x\<rfloor>)" by simp
  then have "(of_int (\<lfloor>x\<rfloor> + 1) :: rat) \<le> of_int (2 ^ nat (bitlen \<lfloor>x\<rfloor>))"
    by (simp only: of_int_le_iff)
  then have "(of_int (\<lfloor>x\<rfloor> + 1) :: rat) \<le> 2 ^ nat (bitlen \<lfloor>x\<rfloor>)"
    by (simp only: of_int_power of_int_numeral)
  moreover have "x < of_int (\<lfloor>x\<rfloor> + 1)" by linarith
  ultimately have "x < 2 ^ nat (bitlen \<lfloor>x\<rfloor>)" by (rule less_le_trans [rotated])
  moreover have "0 \<le> bitlen \<lfloor>x\<rfloor>" by (rule bitlen_nonneg)
  ultimately show ?thesis
    using True by (simp add: ilog2_def power_int_def)
next
  case False
  let ?m = "\<lceil>1 / x\<rceil>"
  from False assms have y: "1 < 1 / x" by (simp add: field_simps)
  then have m: "2 \<le> ?m" by linarith
  then have pos: "0 < ?m - 1" by simp
  from pos have one: "1 \<le> bitlen (?m - 1)" by (auto simp: bitlen_alt_def)
  from bitlen_bounds [OF pos] have "2 ^ nat (bitlen (?m - 1) - 1) \<le> ?m - 1" by simp
  then have "(of_int (2 ^ nat (bitlen (?m - 1) - 1)) :: rat) \<le> of_int (?m - 1)"
    by (simp only: of_int_le_iff)
  then have "(2::rat) ^ nat (bitlen (?m - 1) - 1) \<le> of_int (?m - 1)"
    by (simp only: of_int_power of_int_numeral)
  moreover have "of_int (?m - 1) < 1 / x" by linarith
  ultimately have "2 ^ nat (bitlen (?m - 1) - 1) < 1 / x" by (rule le_less_trans)
  then have "x < 1 / 2 ^ nat (bitlen (?m - 1) - 1)"
    using assms by (simp add: field_simps)
  moreover have "2 powi (- bitlen (?m - 1) + 1) = (1 :: rat) / 2 ^ nat (bitlen (?m - 1) - 1)"
  proof -
    have "- bitlen (?m - 1) + 1 = - (bitlen (?m - 1) - 1)" by simp
    then have "(2::rat) powi (- bitlen (?m - 1) + 1) = 1 / 2 powi (bitlen (?m - 1) - 1)"
      by (simp only: power_int_minus_divide)
    also have "(2::rat) powi (bitlen (?m - 1) - 1) = 2 ^ nat (bitlen (?m - 1) - 1)"
      using one by (simp add: power_int_def)
    finally show ?thesis .
  qed
  ultimately show ?thesis
    using False by (simp add: ilog2_def)
qed

lemma binary64_error:
  assumes "2 powi (- 1022) \<le> x"
  shows "\<bar>binary64 x - x\<bar> \<le> x / 2 ^ 53"
proof -
  have "(0::rat) < 2 powi (- 1022)" by (simp add: zero_less_power_int)
  with assms have pos: "0 < x" by linarith
  let ?e = "ilog2 x"
  have "- 1022 < ?e + 1"
  proof (rule ccontr)
    assume "\<not> - 1022 < ?e + 1"
    then have "?e + 1 \<le> - 1022" by simp
    then have "(2::rat) powi (?e + 1) \<le> 2 powi (- 1022)"
      by (intro power_int_increasing) simp_all
    with assms ilog2_upper [OF pos] show False by linarith
  qed
  then have mx: "max ?e (- 1022) = ?e" by simp
  let ?q = "(2::rat) powi (?e - 52)"
  have q: "0 < ?q" by (simp add: zero_less_power_int)
  have b: "binary64 x = of_int (round_even (x / ?q)) * ?q"
    using pos by (simp add: binary64_def Let_def mx)
  have "binary64 x - x = (of_int (round_even (x / ?q)) - x / ?q) * ?q"
    using q by (simp add: b field_simps)
  then have "\<bar>binary64 x - x\<bar> = \<bar>of_int (round_even (x / ?q)) - x / ?q\<bar> * ?q"
    using q by (simp add: abs_mult)
  also have "\<dots> \<le> (1 / 2) * ?q"
    using q round_even_error [of "x / ?q"] by (intro mult_right_mono) simp_all
  also have "(1 / 2) * ?q = 2 powi ?e / 2 ^ 53"
  proof -
    have "?q = 2 powi ?e / 2 powi 52" by (rule power_int_diff) simp
    then show ?thesis by simp
  qed
  also have "\<dots> \<le> x / 2 ^ 53"
    using ilog2_lower [OF pos] by (simp add: divide_right_mono)
  finally show ?thesis .
qed

lemma binary64_zero: "binary64 0 = 0"
  by (simp add: binary64_def)

lemma tiny_normal: "(2::rat) powi (- 1022) \<le> 1 / 2 ^ 40"
proof -
  have "(2::rat) powi (- 1022) \<le> 2 powi (- 40)"
    by (intro power_int_increasing) simp_all
  also have "(2::rat) powi (- 40) = 1 / 2 ^ 40"
    by (simp only: power_int_minus_divide power_int_numeral)
  finally show ?thesis .
qed

lemma percent_error:
  fixes p t :: nat
  assumes p: "0 < p" "p \<le> t" and t: "t < 2 ^ 33"
  shows "\<bar>js_mul (js_div (of_nat p) (of_nat t)) 100 - 100 * of_nat p / of_nat t\<bar>
         \<le> 300 / 2 ^ 53"
proof -
  define x :: rat where "x = of_nat p / of_nat t"
  define d where "d = binary64 x"
  define m where "m = binary64 (d * 100)"
  define u :: rat where "u = 1 / 2 ^ 53"
  have u: "0 < u" "u \<le> 1 / 2 ^ 34" by (simp_all add: u_def)
  from p have tpos: "0 < t" by simp
  have x1: "x \<le> 1" using p tpos by (simp add: x_def)
  have "(of_nat t :: rat) < of_nat (2 ^ 33)" using t by (simp only: of_nat_less_iff)
  then have tr: "(of_nat t :: rat) < 2 ^ 33" by simp
  have "1 \<le> (of_nat p :: rat)" using p by simp
  then have "1 / of_nat t \<le> x" using tpos by (simp add: x_def divide_right_mono)
  moreover have "1 / 2 ^ 33 < 1 / (of_nat t :: rat)"
    using tr tpos by (simp add: field_simps)
  ultimately have xl: "1 / 2 ^ 33 < x" by linarith
  then have x0: "0 < x" by simp
  have "1 / 2 ^ 40 \<le> x" using xl by simp
  with tiny_normal have "(2::rat) powi (- 1022) \<le> x" by (rule order_trans)
  from binary64_error [OF this] have "\<bar>d - x\<bar> \<le> x * u" by (simp add: d_def u_def)
  moreover have "x * u \<le> 1 * u" using x1 u(1) by (intro mult_right_mono) simp_all
  ultimately have de: "\<bar>d - x\<bar> \<le> u" by simp
  have dl: "1 / 2 ^ 34 \<le> d" using de xl u(2) by simp
  have du: "d \<le> 2" using de x1 u(2) by simp
  have "1 / 2 ^ 40 \<le> d * 100" using dl by simp
  with tiny_normal have "(2::rat) powi (- 1022) \<le> d * 100" by (rule order_trans)
  from binary64_error [OF this] have "\<bar>m - d * 100\<bar> \<le> (d * 100) * u"
    by (simp add: m_def u_def)
  moreover have "(d * 100) * u \<le> 200 * u" using du u(1) by (intro mult_right_mono) simp_all
  ultimately have me: "\<bar>m - d * 100\<bar> \<le> 200 * u" by simp
  from me de have "\<bar>m - 100 * x\<bar> \<le> 300 * u" by linarith
  then show ?thesis
    by (simp add: js_mul_def js_div_def m_def d_def x_def u_def)
qed

lemma round_to_nearest:
  fixes p t :: nat and m :: rat
  assumes tpos: "0 < t" and t: "t < 2 ^ 33"
    and m: "\<bar>m - 100 * of_nat p / of_nat t\<bar> \<le> 300 / 2 ^ 53"
  shows "\<bar>of_int (math_round m) - 100 * of_nat p / of_nat t\<bar> \<le> (1 / 2 :: rat)"
proof -
  define r where "r = math_round m"
  define T :: rat where "T = of_nat t"
  define P :: rat where "P = of_nat p"
  define e :: rat where "e = 300 / 2 ^ 53"
  define X where "X = 100 * P / T"
  have T: "0 < T" using tpos by (simp add: T_def)
  have "T < of_nat (2 ^ 33)" unfolding T_def using t by (simp only: of_nat_less_iff)
  then have tr: "T < 2 ^ 33" by simp
  have e0: "0 \<le> e" by (simp add: e_def)
  have "T * e \<le> 2 ^ 33 * e" using tr e0 by (intro mult_right_mono) simp_all
  moreover have "2 * (2 ^ 33 * e) < 1" by (simp add: e_def)
  ultimately have eps: "2 * (T * e) < 1" by linarith
  have XT: "X * T = 100 * P" using T by (simp add: X_def)
  have r1: "of_int r \<le> m + 1 / 2" and r2: "m + 1 / 2 < of_int r + 1"
    unfolding r_def math_round_def by linarith+
  from m have me: "\<bar>m - X\<bar> \<le> e" by (simp add: X_def P_def T_def e_def)
  have "of_int r - 1 / 2 \<le> X + e" using r1 me by linarith
  then have "(of_int r - 1 / 2) * T \<le> (X + e) * T"
    using T by (intro mult_right_mono) simp_all
  then have "2 * of_int r * T - T \<le> 200 * P + 2 * (T * e)"
    using XT by (simp add: algebra_simps)
  with eps have "2 * of_int r * T - T < 200 * P + 1" by linarith
  then have "(of_int ((2 * r - 1) * int t) :: rat) < of_int (200 * int p + 1)"
    by (simp add: T_def P_def algebra_simps)
  then have "(2 * r - 1) * int t < 200 * int p + 1" by (simp only: of_int_less_iff)
  then have "(2 * r - 1) * int t \<le> 200 * int p" by simp
  then have "(of_int ((2 * r - 1) * int t) :: rat) \<le> of_int (200 * int p)"
    by (simp only: of_int_le_iff)
  then have lo: "2 * of_int r * T - T \<le> 200 * P"
    by (simp add: T_def P_def algebra_simps)
  have "X - e < of_int r + 1 / 2" using r2 me by linarith
  then have "(X - e) * T < (of_int r + 1 / 2) * T"
    using T by (intro mult_strict_right_mono) simp_all
  then have "200 * P - 2 * (T * e) < 2 * of_int r * T + T"
    using XT by (simp add: algebra_simps)
  with eps have "200 * P < 2 * of_int r * T + T + 1" by linarith
  then have "(of_int (200 * int p) :: rat) < of_int ((2 * r + 1) * int t + 1)"
    by (simp add: T_def P_def algebra_simps)
  then have "200 * int p < (2 * r + 1) * int t + 1" by (simp only: of_int_less_iff)
  then have "200 * int p \<le> (2 * r + 1) * int t" by simp
  then have "(of_int (200 * int p) :: rat) \<le> of_int ((2 * r + 1) * int t)"
    by (simp only: of_int_le_iff)
  then have hi: "200 * P \<le> 2 * of_int r * T + T"
    by (simp add: T_def P_def algebra_simps)
  have "(of_int r - 1 / 2) * T \<le> X * T" using lo XT by (simp add: algebra_simps)
  then have a: "of_int r - 1 / 2 \<le> X" using T by (simp only: mult_le_cancel_right_pos)
  have "X * T \<le> (of_int r + 1 / 2) * T" using hi XT by (simp add: algebra_simps)
  then have b: "X \<le> of_int r + 1 / 2" using T by (simp only: mult_le_cancel_right_pos)
  from a b have "\<bar>of_int r - X\<bar> \<le> 1 / 2" by linarith
  then show ?thesis by (simp add: r_def X_def P_def T_def)
qed

lemma math_round_zero: "math_round 0 = 0"
  unfolding math_round_def by (rule floor_unique) simp_all

lemma attendance_rate_nearest:
  assumes "0 < p + a" and "p + a < 2 ^ 33"
  shows "\<bar>of_int (attendance_rate p a) - 100 * of_nat p / of_nat (p + a)\<bar> \<le> (1 / 2 :: rat)"
proof (cases "p = 0")
  case True
  then show ?thesis
    by (simp add: attendance_rate_def Let_def js_div_def js_mul_def binary64_zero math_round_zero)
next
  case False
  then have "0 < p" "p \<le> p + a" by simp_all
  from percent_error [OF this assms(2)] round_to_nearest [OF assms]
  have "\<bar>of_int (math_round (js_mul (js_div (of_nat p) (of_nat (p + a))) 100))
          - 100 * of_nat p / of_nat (p + a)\<bar> \<le> (1 / 2 :: rat)"
    by blast
  with assms(1) show ?thesis
    by (simp add: attendance_rate_def Let_def)
qed

lemma attendance_rate_7_3: "attendance_rate 7 3 = 70"
  by code_simp

lemma attendance_rate_0_0: "attendance_rate 0 0 = 0"
  by code_simp

lemma attendance_rate_tie_down: "attendance_rate 23 17 = 57"
  by code_simp

lemma present_absent_le_length: "count_status Present rows + count_status Absent rows \<le> length rows"
proof -
  have "count_status Present rows + count_status Absent rows
        = length (filter (\<lambda>a. a_status a = Present \<or> a_status a = Absent) rows)"
    unfolding count_status_def
    by (induction rows) auto
  also have "\<dots> \<le> length rows" by (rule length_filter_le)
  finally show ?thesis .
qed

lemma nearest_unless_tie:
  fixes r :: int and X :: rat
  assumes near: "\<bar>of_int r - X\<bar> \<le> 1 / 2"
    and no_tie: "of_int \<lfloor>X + 1 / 2\<rfloor> \<noteq> X + 1 / 2"
  shows "r = \<lfloor>X + 1 / 2\<rfloor>"
proof -
  let ?n = "\<lfloor>X + 1 / 2\<rfloor>"
  have "of_int ?n \<le> X + 1 / 2" by (rule of_int_floor_le)
  with no_tie have lt: "of_int ?n < X + 1 / 2" by (simp only: less_le) simp
  from near have "of_int r \<le> X + 1 / 2" by linarith
  then have up: "r \<le> ?n" by (simp only: le_floor_iff)
  from near lt have "of_int ?n - 1 < (of_int r :: rat)" by linarith
  then have "(of_int (?n - 1) :: rat) < of_int r" by simp
  then have "?n - 1 < r" by (simp only: of_int_less_iff)
  with up show ?thesis by simp
qed

text \<open>
  C3. For the attendance rows of a day (an array, so fewer than \<open>2 ^ 32\<close> rows), the
  dashboard rate is 0 when no row is Present or Absent, and otherwise an integer nearest
  to the percentage present / (present + absent): it differs from it by at most one
  half, and it is the percentage rounded half up unless the percentage lies exactly
  halfway between two integers (there the binary64 product may fall just below the
  half, as for 23 Present and 17 Absent). Seven Present and three Absent rows give 70.
  Late and Excused rows enter neither count: dropping them leaves the rate unchanged.
\<close>

theorem dashboard_rate_nearest_percent:
  assumes "length rows < 2 ^ 32"
  shows "(count_status Present rows + count_status Absent rows = 0 \<longrightarrow> dashboard_rate rows = 0)
     \<and> (0 < count_status Present rows + count_status Absent rows \<longrightarrow>
          \<bar>of_int (dashboard_rate rows)
             - 100 * of_nat (count_status Present rows)
               / of_nat (count_status Present rows + count_status Absent rows)\<bar> \<le> (1 / 2 :: rat))
     \<and> (0 < count_status Present rows + count_status Absent rows
          \<and> of_int \<lfloor>100 * of_nat (count_status Present rows)
                      / of_nat (count_status Present rows + count_status Absent rows)
                      + (1 / 2 :: rat)\<rfloor>
              \<noteq> 100 * of_nat (count_status Present rows)
                  / of_nat (count_status Present rows + count_status Absent rows) + (1 / 2 :: rat)
          \<longrightarrow> dashboard_rate rows
              = \<lfloor>100 * of_nat (count_status Present rows)
                  / of_nat (count_status Present rows + count_status Absent rows)
                  + (1 / 2 :: rat)\<rfloor>)
     \<and> (count_status Present rows = 7 \<and> count_status Absent rows = 3 \<longrightarrow> dashboard_rate rows = 70)
     \<and> dashboard_rate (filter (\<lambda>a. a_status a = Present \<or> a_status a = Absent) rows)
         = dashboard_rate rows"
proof -
  let ?p = "count_status Present rows" and ?a = "count_status Absent rows"
  let ?X = "100 * of_nat ?p / of_nat (?p + ?a) :: rat"
  have rate: "dashboard_rate rows = attendance_rate ?p ?a"
    by (simp add: dashboard_rate_def count_status_def Let_def)
  have "?p + ?a < 2 ^ 32" using present_absent_le_length [of rows] assms by linarith
  then have small: "?p + ?a < 2 ^ 33" by simp
  have zero: "?p + ?a = 0 \<longrightarrow> dashboard_rate rows = 0"
    by (simp add: rate attendance_rate_def)
  have near: "0 < ?p + ?a \<longrightarrow> \<bar>of_int (dashboard_rate rows) - ?X\<bar> \<le> 1 / 2"
    using attendance_rate_nearest [OF _ small] by (simp only: rate) blast
  have exact: "0 < ?p + ?a \<and> of_int \<lfloor>?X + 1 / 2\<rfloor> \<noteq> ?X + 1 / 2
      \<longrightarrow> dashboard_rate rows = \<lfloor>?X + 1 / 2\<rfloor>"
  proof (intro impI, elim conjE)
    assume "0 < ?p + ?a" and nt: "of_int \<lfloor>?X + 1 / 2\<rfloor> \<noteq> ?X + 1 / 2"
    with near have "\<bar>of_int (dashboard_rate rows) - ?X\<bar> \<le> 1 / 2" by (simp only:)
    then show "dashboard_rate rows = \<lfloor>?X + 1 / 2\<rfloor>"
      using nt by (rule nearest_unless_tie)
  qed
  have ex: "?p = 7 \<and> ?a = 3 \<longrightarrow> dashboard_rate rows = 70"
    by (simp add: rate attendance_rate_7_3)
  have "filter (\<lambda>a. a_status a = Present)
          (filter (\<lambda>a. a_status a = Present \<or> a_status a = Absent) rows)
        = filter (\<lambda>a. a_status a = Present) rows"
    and "filter (\<lambda>a. a_status a = Absent)
          (filter (\<lambda>a. a_status a = Present \<or> a_status a = Absent) rows)
        = filter (\<lambda>a. a_status a = Absent) rows"
    by (auto intro: filter_cong)
  then have only: "dashboard_rate (filter (\<lambda>a. a_status a = Present \<or> a_status a = Absent) rows)
      = dashboard_rate rows"
    by (simp only: dashboard_rate_def)
  from zero near exact ex only show ?thesis by blast
qed

theorem dashboard_rate_nearest_percent_witness:
  "length demo_day < 2 ^ 32
   \<and> count_status Present demo_day = 7 \<and> count_status Absent demo_day = 3
   \<and> dashboard_rate demo_day = 70"
proof -
  have len: "length demo_day < 2 ^ 32"
    by (simp add: demo_day_def)
  have p: "count_status Present demo_day = 7" and a: "count_status Absent demo_day = 3"
    by (simp_all add: count_status_def demo_day_def day_row_def)
  from dashboard_rate_nearest_percent [OF len] p a have "dashboard_rate demo_day = 70"
    by blast
  with len p a show ?thesis by blast
qed

section \<open>Proofs: validation\<close>

lemma joi_string_None: "1 \<le> lo \<Longrightarrow> (joi_string lo hi v = None) = (\<not> text_between lo hi v)"
  by (auto simp: joi_string_def text_between_def split: option.splits jsval.splits)

lemma joi_valid_None: "(joi_valid allowed v = None) = (\<not> one_of allowed v)"
  by (auto simp: joi_valid_def one_of_def split: option.splits jsval.splits)

lemma joi_uuid_None: "(joi_uuid env v = None) = (\<not> uuid_text env v)"
  by (auto simp: joi_uuid_def uuid_text_def split: option.splits jsval.splits)

lemma joi_date_parsed: "joi_date env v = parsed_date env v"
  by (simp add: joi_date_def parsed_date_def)

lemma joi_date_None: "(joi_date env v = None) = (\<not> well_formed_date env v)"
  by (simp add: joi_date_parsed well_formed_date_def split: option.splits)

lemma joi_date_max_now_None: "(joi_date_max_now env v = None) = (\<not> date_not_after_now env v)"
  by (simp add: joi_date_max_now_def joi_date_parsed date_not_after_now_def split: option.splits)

lemma joi_integer_None_1_12:
  "(joi_integer env 1 12 v = None) = (\<not> whole_between env 1 12 v)"
proof (cases "numeric env v")
  case None
  then show ?thesis
    by (simp add: joi_integer_def joi_number_def numeric_def [symmetric] whole_between_def)
next
  case (Some n)
  show ?thesis
  proof (cases "\<bar>n\<bar> \<le> 9007199254740991")
    case True
    with Some show ?thesis
      by (simp add: joi_integer_def joi_number_def numeric_def [symmetric] whole_between_def)
  next
    case False
    then have "\<not> (1 \<le> n \<and> n \<le> 12)" by linarith
    with Some False show ?thesis
      by (auto simp add: joi_integer_def joi_number_def numeric_def [symmetric] whole_between_def)
  qed
qed

lemma first_offending_None:
  "(first_offending checks extra = None) = (list_all snd checks \<and> extra = [])"
proof -
  have "(filter (\<lambda>c. \<not> snd c) checks = []) = list_all snd checks"
    by (simp add: filter_empty_conv list_all_iff)
  then show ?thesis
    by (auto simp: first_offending_def split: list.splits)
qed

lemma rejection_None: "(rejection r = None) = (\<exists>v. r = Inr v)"
  by (cases r) (simp_all add: rejection_def)

lemma schema_rejections:
  "rejection (classSchema env b)
     = map_option (\<lambda>k. [Key k])
         (first_offending (class_checks env b) (unknown_keys [''class_name'', ''grade''] b))
   \<and> rejection (studentSchema env b)
     = map_option (\<lambda>k. [Key k])
         (first_offending (student_checks env b)
            (unknown_keys [''name'', ''class_id'', ''gender'', ''date_of_birth''] b))
   \<and> rejection (attendanceSchema env b)
     = map_option (\<lambda>k. [Key k])
         (first_offending (attendance_checks env b)
            (unknown_keys [''student_id'', ''date'', ''status''] b))"
proof (intro conjI)
  show "rejection (classSchema env b)
     = map_option (\<lambda>k. [Key k])
         (first_offending (class_checks env b) (unknown_keys [''class_name'', ''grade''] b))"
    using joi_string_None [of 1 50 "map_of b ''class_name''"]
      joi_integer_None_1_12 [of env "map_of b ''grade''"]
    by (auto simp: classSchema_def rejection_def first_offending_def class_checks_def
        split: option.splits list.splits)
  show "rejection (studentSchema env b)
     = map_option (\<lambda>k. [Key k])
         (first_offending (student_checks env b)
            (unknown_keys [''name'', ''class_id'', ''gender'', ''date_of_birth''] b))"
    using joi_string_None [of 2 100 "map_of b ''name''"]
      joi_uuid_None [of env "map_of b ''class_id''"]
      joi_valid_None [of "[''Male'', ''Female'']" "map_of b ''gender''"]
      joi_date_max_now_None [of env "map_of b ''date_of_birth''"]
    by (auto simp: studentSchema_def rejection_def first_offending_def student_checks_def
        split: option.splits list.splits)
  show "rejection (attendanceSchema env b)
     = map_option (\<lambda>k. [Key k])
         (first_offending (attendance_checks env b)
            (unknown_keys [''student_id'', ''date'', ''status''] b))"
    using joi_uuid_None [of env "map_of b ''student_id''"]
      joi_date_None [of env "map_of b ''date''"]
      joi_valid_None [of "[''Present'', ''Absent'', ''Late'', ''Excused'']" "map_of b ''status''"]
    by (auto simp: attendanceSchema_def rejection_def first_offending_def attendance_checks_def
        split: option.splits list.splits)
qed

lemma unknown_keys_empty: "(unknown_keys known b = []) = (set (map fst b) \<subseteq> set known)"
  by (auto simp: unknown_keys_def filter_empty_conv)

lemma joi_string_Some:
  "1 \<le> lo \<Longrightarrow>
   (joi_string lo hi v = Some s) = (v = Some (JStr s) \<and> lo \<le> length s \<and> length s \<le> hi)"
  by (auto simp: joi_string_def split: option.splits jsval.splits)

lemma joi_uuid_Some:
  "(joi_uuid env v = Some s) = (v = Some (JStr s) \<and> s \<noteq> [] \<and> guid_ok env s)"
  by (auto simp: joi_uuid_def split: option.splits jsval.splits)

lemma joi_valid_Some:
  "(joi_valid allowed v = Some s) = (v = Some (JStr s) \<and> s \<in> set allowed)"
  by (auto simp: joi_valid_def split: option.splits jsval.splits)

lemma joi_date_max_now_Some:
  "(joi_date_max_now env v = Some t) = (parsed_date env v = Some t \<and> t \<le> now env)"
  by (auto simp: joi_date_max_now_def joi_date_parsed split: option.splits)

lemma joi_integer_Some_1_12:
  "(joi_integer env 1 12 v = Some g)
     = (numeric env v = Some (of_int g) \<and> 1 \<le> g \<and> g \<le> 12)"
proof (cases "numeric env v")
  case None
  then show ?thesis
    by (simp add: joi_integer_def joi_number_def numeric_def [symmetric])
next
  case (Some n)
  define c where "c = (of_int \<lfloor>n\<rfloor> = n \<and> of_int 1 \<le> n \<and> n \<le> of_int 12)"
  have key: "(c \<and> \<lfloor>n\<rfloor> = g) = (n = of_int g \<and> 1 \<le> g \<and> g \<le> 12)"
  proof
    assume l: "c \<and> \<lfloor>n\<rfloor> = g"
    then have "of_int g = n" unfolding c_def by blast
    moreover from l have "1 \<le> n" "n \<le> 12" unfolding c_def by simp_all
    ultimately show "n = of_int g \<and> 1 \<le> g \<and> g \<le> 12" by auto
  next
    assume "n = of_int g \<and> 1 \<le> g \<and> g \<le> 12"
    then show "c \<and> \<lfloor>n\<rfloor> = g" unfolding c_def by simp
  qed
  show ?thesis
  proof (cases "\<bar>n\<bar> \<le> 9007199254740991")
    case True
    have "joi_integer env 1 12 v = (if c then Some \<lfloor>n\<rfloor> else None)"
      using Some True unfolding c_def
      by (simp add: joi_integer_def joi_number_def numeric_def [symmetric])
    then have "(joi_integer env 1 12 v = Some g) = (c \<and> \<lfloor>n\<rfloor> = g)"
      by auto
    with key Some show ?thesis by simp
  next
    case False
    then have "\<not> (1 \<le> n \<and> n \<le> 12)" by linarith
    then have "\<not> (n = of_int g \<and> 1 \<le> g \<and> g \<le> 12)" by auto
    moreover have "joi_integer env 1 12 v = None"
      using Some False by (simp add: joi_integer_def joi_number_def numeric_def [symmetric])
    ultimately show ?thesis
      using Some by simp
  qed
qed

lemma classSchema_accepts:
  "(classSchema env b = Inr cv)
     = (map_of b ''class_name'' = Some (JStr (v_class_name cv))
        \<and> 1 \<le> length (v_class_name cv) \<and> length (v_class_name cv) \<le> 50
        \<and> numeric env (map_of b ''grade'') = Some (of_int (v_grade cv))
        \<and> 1 \<le> v_grade cv \<and> v_grade cv \<le> 12
        \<and> set (map fst b) \<subseteq> {''class_name'', ''grade''})"
proof -
  have "(classSchema env b = Inr cv)
     = (joi_string 1 50 (map_of b ''class_name'') = Some (v_class_name cv)
        \<and> joi_integer env 1 12 (map_of b ''grade'') = Some (v_grade cv)
        \<and> unknown_keys [''class_name'', ''grade''] b = [])"
    by (cases cv) (auto simp: classSchema_def split: option.splits list.splits)
  then show ?thesis
    by (simp add: joi_string_Some joi_integer_Some_1_12 unknown_keys_empty conj_ac)
qed

lemma studentSchema_accepts:
  "(studentSchema env b = Inr sv)
     = (map_of b ''name'' = Some (JStr (v_name sv))
        \<and> 2 \<le> length (v_name sv) \<and> length (v_name sv) \<le> 100
        \<and> map_of b ''class_id'' = Some (JStr (v_class_id sv))
        \<and> v_class_id sv \<noteq> [] \<and> guid_ok env (v_class_id sv)
        \<and> map_of b ''gender'' = Some (JStr (v_gender sv))
        \<and> v_gender sv \<in> {''Male'', ''Female''}
        \<and> parsed_date env (map_of b ''date_of_birth'') = Some (v_date_of_birth sv)
        \<and> v_date_of_birth sv \<le> now env
        \<and> set (map fst b) \<subseteq> {''name'', ''class_id'', ''gender'', ''date_of_birth''})"
proof -
  have "(studentSchema env b = Inr sv)
     = (joi_string 2 100 (map_of b ''name'') = Some (v_name sv)
        \<and> joi_uuid env (map_of b ''class_id'') = Some (v_class_id sv)
        \<and> joi_valid [''Male'', ''Female''] (map_of b ''gender'') = Some (v_gender sv)
        \<and> joi_date_max_now env (map_of b ''date_of_birth'') = Some (v_date_of_birth sv)
        \<and> unknown_keys [''name'', ''class_id'', ''gender'', ''date_of_birth''] b = [])"
    by (cases sv) (auto simp: studentSchema_def split: option.splits list.splits)
  then show ?thesis
    by (simp add: joi_string_Some joi_uuid_Some joi_valid_Some joi_date_max_now_Some
        unknown_keys_empty conj_ac)
qed

lemma attendanceSchema_accepts:
  "(attendanceSchema env b = Inr av)
     = (map_of b ''student_id'' = Some (JStr (v_student_id av))
        \<and> v_student_id av \<noteq> [] \<and> guid_ok env (v_student_id av)
        \<and> parsed_date env (map_of b ''date'') = Some (v_date av)
        \<and> map_of b ''status'' = Some (JStr (v_status av))
        \<and> v_status av \<in> {''Present'', ''Absent'', ''Late'', ''Excused''}
        \<and> set (map fst b) \<subseteq> {''student_id'', ''date'', ''status''})"
proof -
  have "(attendanceSchema env b = Inr av)
     = (joi_uuid env (map_of b ''student_id'') = Some (v_student_id av)
        \<and> joi_date env (map_of b ''date'') = Some (v_date av)
        \<and> joi_valid [''Present'', ''Absent'', ''Late'', ''Excused''] (map_of b ''status'')
            = Some (v_status av)
        \<and> unknown_keys [''student_id'', ''date'', ''status''] b = [])"
    by (cases av) (auto simp: attendanceSchema_def split: option.splits list.splits)
  then show ?thesis
    by (simp add: joi_uuid_Some joi_valid_Some joi_date_parsed unknown_keys_empty conj_ac)
qed

lemma schema_acceptances:
  "(\<exists>v. classSchema env b = Inr v)
     = (list_all snd (class_checks env b) \<and> unknown_keys [''class_name'', ''grade''] b = [])
   \<and> (\<exists>v. studentSchema env b = Inr v)
     = (list_all snd (student_checks env b)
        \<and> unknown_keys [''name'', ''class_id'', ''gender'', ''date_of_birth''] b = [])
   \<and> (\<exists>v. attendanceSchema env b = Inr v)
     = (list_all snd (attendance_checks env b)
        \<and> unknown_keys [''student_id'', ''date'', ''status''] b = [])"
proof -
  note r = schema_rejections [of env b]
  have c: "(\<exists>v. classSchema env b = Inr v)
     = (list_all snd (class_checks env b) \<and> unknown_keys [''class_name'', ''grade''] b = [])"
    unfolding rejection_None [symmetric] conjunct1 [OF r] by (simp add: first_offending_None)
  have s: "(\<exists>v. studentSchema env b = Inr v)
     = (list_all snd (student_checks env b)
        \<and> unknown_keys [''name'', ''class_id'', ''gender'', ''date_of_birth''] b = [])"
    unfolding rejection_None [symmetric] conjunct1 [OF conjunct2 [OF r]]
    by (simp add: first_offending_None)
  have a: "(\<exists>v. attendanceSchema env b = Inr v)
     = (list_all snd (attendance_checks env b)
        \<and> unknown_keys [''student_id'', ''date'', ''status''] b = [])"
    unfolding rejection_None [symmetric] conjunct2 [OF conjunct2 [OF r]]
    by (simp add: first_offending_None)
  from c s a show ?thesis by (intro conjI)
qed

text \<open>
  C8, as the code has it. For every payload, validation accepts exactly the payloads in
  which every field of the schema satisfies its rule and no other field occurs, and
  otherwise rejects with an error naming the first offending field: the first failing
  field in the order of the schema or, when none fails, the first field outside the
  schema. The rules are: Class: \<^verbatim>\<open>class_name\<close> a string of 1 to 50 characters, \<^verbatim>\<open>grade\<close> an
  integer in [1,12], given as a number or as a numeric text that validation converts;
  Student: \<^verbatim>\<open>name\<close> a string of 2 to 100 characters, \<^verbatim>\<open>class_id\<close> a UUID text, \<^verbatim>\<open>gender\<close>
  Male or Female, \<^verbatim>\<open>date_of_birth\<close> a well-formed date whose instant is not after the
  current instant; Attendance: \<^verbatim>\<open>student_id\<close> a UUID text, \<^verbatim>\<open>date\<close> a well-formed date,
  \<^verbatim>\<open>status\<close> one of Present, Absent, Late, Excused. An accepted payload yields the
  submitted texts, the integer that the grade denotes and the instant that the date
  denotes. What a UUID text, a numeric text and a well-formed date are is the library's
  matter: \<open>guid_ok\<close>, \<open>number_of_string\<close> and \<open>date_parse\<close>.
\<close>

theorem validation_first_offending:
  "rejection (classSchema env b)
     = map_option (\<lambda>k. [Key k])
         (first_offending (class_checks env b) (unknown_keys [''class_name'', ''grade''] b))
   \<and> (\<exists>v. classSchema env b = Inr v)
     = (list_all snd (class_checks env b) \<and> unknown_keys [''class_name'', ''grade''] b = [])
   \<and> (classSchema env b = Inr cv)
     = (map_of b ''class_name'' = Some (JStr (v_class_name cv))
        \<and> 1 \<le> length (v_class_name cv) \<and> length (v_class_name cv) \<le> 50
        \<and> numeric env (map_of b ''grade'') = Some (of_int (v_grade cv))
        \<and> 1 \<le> v_grade cv \<and> v_grade cv \<le> 12
        \<and> set (map fst b) \<subseteq> {''class_name'', ''grade''})
   \<and> rejection (studentSchema env b)
     = map_option (\<lambda>k. [Key k])
         (first_offending (student_checks env b)
            (unknown_keys [''name'', ''class_id'', ''gender'', ''date_of_birth''] b))
   \<and> (\<exists>v. studentSchema env b = Inr v)
     = (list_all snd (student_checks env b)
        \<and> unknown_keys [''name'', ''class_id'', ''gender'', ''date_of_birth''] b = [])
   \<and> (studentSchema env b = Inr sv)
     = (map_of b ''name'' = Some (JStr (v_name sv))
        \<and> 2 \<le> length (v_name sv) \<and> length (v_name sv) \<le> 100
        \<and> map_of b ''class_id'' = Some (JStr (v_class_id sv))
        \<and> v_class_id sv \<noteq> [] \<and> guid_ok env (v_class_id sv)
        \<and> map_of b ''gender'' = Some (JStr (v_gender sv))
        \<and> v_gender sv \<in> {''Male'', ''Female''}
        \<and> parsed_date env (map_of b ''date_of_birth'') = Some (v_date_of_birth sv)
        \<and> v_date_of_birth sv \<le> now env
        \<and> set (map fst b) \<subseteq> {''name'', ''class_id'', ''gender'', ''date_of_birth''})
   \<and> rejection (attendanceSchema env b)
     = map_option (\<lambda>k. [Key k])
         (first_offending (attendance_checks env b)
            (unknown_keys [''student_id'', ''date'', ''status''] b))
   \<and> (\<exists>v. attendanceSchema env b = Inr v)
     = (list_all snd (attendance_checks env b)
        \<and> unknown_keys [''student_id'', ''date'', ''status''] b = [])
   \<and> (attendanceSchema env b = Inr av)
     = (map_of b ''student_id'' = Some (JStr (v_student_id av))
        \<and> v_student_id av \<noteq> [] \<and> guid_ok env (v_student_id av)
        \<and> parsed_date env (map_of b ''date'') = Some (v_date av)
        \<and> map_of b ''status'' = Some (JStr (v_status av))
        \<and> v_status av \<in> {''Present'', ''Absent'', ''Late'', ''Excused''}
        \<and> set (map fst b) \<subseteq> {''student_id'', ''date'', ''status''})"
proof -
  note r = schema_rejections [of env b]
  note a = schema_acceptances [of env b]
  show ?thesis
    by (intro conjI conjunct1 [OF r] conjunct1 [OF conjunct2 [OF r]] conjunct2 [OF conjunct2 [OF r]]
        conjunct1 [OF a] conjunct1 [OF conjunct2 [OF a]] conjunct2 [OF conjunct2 [OF a]]
        classSchema_accepts studentSchema_accepts attendanceSchema_accepts)
qed

text \<open>
  The requirements as the property lists them do not characterise the accepted payloads,
  at five payloads:
  \<^item> a student payload that meets the three listed requirements and has no \<^verbatim>\<open>class_id\<close>
    is rejected, the error naming \<^verbatim>\<open>class_id\<close>;
  \<^item> an attendance payload that meets the two listed requirements and has no
    \<^verbatim>\<open>student_id\<close> is rejected, the error naming \<^verbatim>\<open>student_id\<close>;
  \<^item> a class payload that meets the two listed requirements and has one more field,
    \<^verbatim>\<open>room\<close>, is rejected, the error naming \<^verbatim>\<open>room\<close>;
  \<^item> a class payload whose grade is the text \<^verbatim>\<open>"7"\<close>, not an integer, is accepted, with
    the grade 7;
  \<^item> a student payload whose date of birth is one o'clock in the afternoon of today,
    the clock standing at noon, is rejected, the error naming \<^verbatim>\<open>date_of_birth\<close>: its date
    is not after today, its instant is after the current one.
\<close>

theorem validation_rules_as_stated_counterexample:
  "(student_rules_as_stated demo_env student_without_class
    \<and> studentSchema demo_env student_without_class = Inl [Key ''class_id''])
   \<and> (attendance_rules_as_stated demo_env attendance_without_student
    \<and> attendanceSchema demo_env attendance_without_student = Inl [Key ''student_id''])
   \<and> (class_rules_as_stated class_with_extra_field
    \<and> classSchema demo_env class_with_extra_field = Inl [Key ''room''])
   \<and> (\<not> class_rules_as_stated class_with_text_grade
    \<and> classSchema demo_env class_with_text_grade
        = Inr \<lparr>v_class_name = ''3A'', v_grade = 7\<rparr>)
   \<and> (student_rules_as_stated demo_env student_born_later_today
    \<and> studentSchema demo_env student_born_later_today = Inl [Key ''date_of_birth''])"
  by code_simp
section \<open>Proofs: the bulk write\<close>

lemma found_length:
  assumes "distinct (map s_id studs)"
  shows "length (filter (\<lambda>s. s_id s \<in> set ids) studs) = card (set ids \<inter> s_id ` set studs)"
proof -
  have d: "distinct (map s_id (filter (\<lambda>s. s_id s \<in> set ids) studs))"
    using assms by (rule distinct_map_filter)
  have "length (filter (\<lambda>s. s_id s \<in> set ids) studs)
        = length (map s_id (filter (\<lambda>s. s_id s \<in> set ids) studs))"
    by simp
  also have "\<dots> = card (set (map s_id (filter (\<lambda>s. s_id s \<in> set ids) studs)))"
    using d by (simp only: distinct_card)
  also have "set (map s_id (filter (\<lambda>s. s_id s \<in> set ids) studs)) = set ids \<inter> s_id ` set studs"
    by auto
  finally show ?thesis .
qed

lemma existence_check_iff:
  assumes "distinct (map s_id studs)"
  shows "length (filter (\<lambda>s. s_id s \<in> set ids) studs) = length ids
         \<longleftrightarrow> distinct ids \<and> set ids \<subseteq> s_id ` set studs"
proof
  assume eq: "length (filter (\<lambda>s. s_id s \<in> set ids) studs) = length ids"
  have "card (set ids \<inter> s_id ` set studs) \<le> card (set ids)"
    by (simp add: card_mono)
  moreover have "card (set ids) \<le> length ids" by (rule card_length)
  ultimately have c: "card (set ids \<inter> s_id ` set studs) = card (set ids)"
    and l: "card (set ids) = length ids"
    using eq found_length [OF assms, of ids] by linarith+
  from l have "distinct ids" by (rule card_distinct)
  moreover from c have "set ids \<inter> s_id ` set studs = set ids"
    by (simp add: card_subset_eq)
  ultimately show "distinct ids \<and> set ids \<subseteq> s_id ` set studs" by blast
next
  assume "distinct ids \<and> set ids \<subseteq> s_id ` set studs"
  then have "distinct ids" and "set ids \<inter> s_id ` set studs = set ids" by blast+
  then show "length (filter (\<lambda>s. s_id s \<in> set ids) studs) = length ids"
    using found_length [OF assms, of ids] by (simp add: distinct_card)
qed

lemma stamp_ids: "map in_student_id (stamp d rs) = map i_student_id rs"
  by (simp add: stamp_def comp_def)

lemma stamp_length: "length (stamp d rs) = length rs"
  by (simp add: stamp_def)

lemma those_map_Some: "those (map Some xs) = Some xs"
  by (induction xs) simp_all

lemma those_length: "those xs = Some ys \<Longrightarrow> length ys = length xs"
  by (induction xs arbitrary: ys) (auto split: option.splits)

lemma those_Some_set: "those xs = Some ys \<Longrightarrow> y \<in> set ys \<Longrightarrow> Some y \<in> set xs"
  by (induction xs arbitrary: ys) (auto split: option.splits)

lemma those_None_iff: "those xs = None \<longleftrightarrow> None \<in> set xs"
  by (induction xs) (auto split: option.splits)

text \<open>The store reads the identifier of a stored student as itself.\<close>

lemma store_uuid_stored:
  "x \<in> s_id ` set (students st) \<Longrightarrow> store_uuid env st x = Some x"
  by (simp add: store_uuid_def)

lemma store_uuid_all_stored:
  assumes "set ids \<subseteq> s_id ` set (students st)"
  shows "those (map (store_uuid env st) ids) = Some ids"
proof -
  have "map (store_uuid env st) ids = map Some ids"
    using assms by (intro map_cong refl store_uuid_stored) blast
  then show ?thesis by (simp only: those_map_Some)
qed

text \<open>A bulk write that does not answer with success leaves the store as it was.\<close>

lemma post_bulk_failure_keeps_store:
  assumes "fst (post_bulk env st b) = Failure code e"
  shows "snd (post_bulk env st b) = st"
  using assms
  by (auto simp: post_bulk_def Let_def split: sum.splits if_splits prod.splits option.splits)

lemma post_bulk_malformed:
  assumes "bulkAttendanceSchema env b = Inl p"
  shows "post_bulk env st b = (Failure 400 (Validation p), st)"
  using assms by (simp add: post_bulk_def)

text \<open>The route on a submission that passes the validation.\<close>

lemma post_bulk_valid:
  assumes "bulkAttendanceSchema env b = Inr v"
  shows "post_bulk env st b =
     (case those (map (store_uuid env st) (map i_student_id (v_records v))) of
        None \<Rightarrow> (Failure 500 (Message ''Failed to record bulk attendance''), st)
      | Some ids \<Rightarrow>
          if length (filter (\<lambda>s. s_id s \<in> set ids) (students st)) \<noteq> length (v_records v)
          then (Failure 400 (Message ''One or more students not found''), st)
          else
            (case upsert env st (stamp (v_bulk_date v) (v_records v)) of
               Inl e \<Rightarrow> (Failure 500 (Message ''Failed to record bulk attendance''), st)
             | Inr (rows, st') \<Rightarrow> (Success 201 rows, st')))"
proof -
  have "length (map in_student_id (stamp (v_bulk_date v) (v_records v))) = length (v_records v)"
    by (simp add: stamp_length)
  then show ?thesis
    unfolding post_bulk_def Let_def assms sum.case stamp_ids by (simp only:)
qed

text \<open>
  Where the store reads every submitted identifier and one of them is the identifier of
  no student, the route answers as the specification says: status 400, the error
  'One or more students not found', and the store as it was.
\<close>

lemma post_bulk_unknown_student:
  assumes "bulkAttendanceSchema env b = Inr v"
    and "distinct (map s_id (students st))"
    and "those (map (store_uuid env st) (map i_student_id (v_records v))) = Some ids"
    and "\<not> set ids \<subseteq> s_id ` set (students st)"
  shows "post_bulk env st b = (Failure 400 (Message ''One or more students not found''), st)"
proof -
  have "length (filter (\<lambda>s. s_id s \<in> set ids) (students st)) \<noteq> length ids"
    using existence_check_iff [OF assms(2), of ids] assms(4) by blast
  moreover have "length ids = length (v_records v)"
    using those_length [OF assms(3)] by simp
  ultimately have "length (filter (\<lambda>s. s_id s \<in> set ids) (students st))
                   \<noteq> length (v_records v)"
    by simp
  then show ?thesis
    unfolding post_bulk_valid [OF assms(1)] assms(3) by simp
qed

text \<open>
  Where the store rejects one of the submitted identifiers, the existence query yields
  no data, and the route answers with status 500 and the store as it was.
\<close>

lemma post_bulk_unreadable_identifier:
  assumes "bulkAttendanceSchema env b = Inr v"
    and "r \<in> set (v_records v)"
    and "store_uuid env st (i_student_id r) = None"
  shows "post_bulk env st b = (Failure 500 (Message ''Failed to record bulk attendance''), st)"
proof -
  have "None \<in> set (map (store_uuid env st) (map i_student_id (v_records v)))"
    using assms(2,3) by (force simp: image_iff)
  then have "those (map (store_uuid env st) (map i_student_id (v_records v))) = None"
    by (simp only: those_None_iff)
  then show ?thesis
    unfolding post_bulk_valid [OF assms(1)] by simp
qed

text \<open>
  The stamping, seen at the route: every row that a successful bulk write returns is a
  row of the date of the submission.
\<close>

lemma upsert_rows_dated:
  assumes "upsert env st vals = Inr (rows, st')"
    and "list_all (\<lambda>x. in_date x = t) vals"
  shows "list_all (\<lambda>r. a_date r = date_of_instant env t) rows"
proof -
  obtain rws where rws: "those (map (to_store_row env st) vals) = Some rws"
    using assms(1) by (auto simp: upsert_def split: option.splits)
  have dated: "fst (snd row) = date_of_instant env t" if "row \<in> set rws" for row
  proof -
    from those_Some_set [OF rws that] obtain x
      where x: "x \<in> set vals" "to_store_row env st x = Some row"
      by auto
    from x(1) assms(2) have "in_date x = t" by (simp add: list_all_iff)
    with x(2) show ?thesis
      by (auto simp: to_store_row_def split: option.splits)
  qed
  obtain tbl where
    "rows = concat (map (\<lambda>row. filter (same_key (fst row) (fst (snd row))) tbl) rws)"
    using assms(1) rws by (auto simp: upsert_def split: if_splits prod.splits)
  then show ?thesis
    using dated by (auto simp: list_all_iff same_key_def)
qed

lemma post_bulk_rows_stamped:
  assumes "bulkAttendanceSchema env b = Inr v"
    and "post_bulk env st b = (Success code rows, st')"
  shows "list_all (\<lambda>r. a_date r = date_of_instant env (v_bulk_date v)) rows"
proof -
  have "upsert env st (stamp (v_bulk_date v) (v_records v)) = Inr (rows, st')"
    using assms(2) unfolding post_bulk_valid [OF assms(1)]
    by (auto split: option.splits if_splits sum.splits prod.splits)
  moreover have "list_all (\<lambda>x. in_date x = v_bulk_date v) (stamp (v_bulk_date v) (v_records v))"
    by (simp add: stamp_def list_all_iff)
  ultimately show ?thesis by (rule upsert_rows_dated)
qed

text \<open>
  An unknown identifier that the store reads, written with hyphens: the answer is the
  specified one.
\<close>

lemma bulk_unknown_student_is_400:
  "post_bulk demo_env demo_store bulk_with_unknown
     = (Failure 400 (Message ''One or more students not found''), demo_store)"
  by code_simp

text \<open>
  The single write, the sibling of the bulk write, answers an identifier that the store
  rejects with status 400: its existence check tests the data of the query, which is
  empty.
\<close>

lemma post_attendance_unreadable_identifier:
  "post_attendance demo_env demo_store write_with_colon_id
     = (Failure 400 (Message ''Student not found''), demo_store)"
  by code_simp

text \<open>
  C4. A bulk submission that passes the shape validation and whose second \<^verbatim>\<open>student_id\<close>,
  written with colons as the separators, references no existing student is answered
  with status 500 and the error 'Failed to record bulk attendance', not with status 400
  and the error 'One or more students not found': the store rejects the text, the
  existence query yields an error and no data, and the route reads the length of the
  data without reading the error. The store stays as it was. (The lemmas above prove
  the rest of the claim: where the store reads the submitted identifiers and one of them
  references no student, the answer is status 400 with that error and the store as it
  was, and the rows that a successful write returns carry the date of the submission.)
\<close>

theorem bulk_unknown_student_is_500:
  "bulkAttendanceSchema demo_env bulk_with_colon_id
     = Inr \<lparr>v_bulk_date = 1704067200000,
            v_records = [\<lparr>i_student_id = emma_id, i_status = ''Present''\<rparr>,
                         \<lparr>i_student_id = colon_id, i_status = ''Absent''\<rparr>]\<rparr>
   \<and> colon_id \<notin> s_id ` set (students demo_store)
   \<and> post_bulk demo_env demo_store bulk_with_colon_id
     = (Failure 500 (Message ''Failed to record bulk attendance''), demo_store)"
  by code_simp

text \<open>
  C10. For every bulk submission that passes the shape validation, whose every
  \<^verbatim>\<open>student_id\<close> references an existing student, and in which some \<^verbatim>\<open>student_id\<close> occurs
  more than once, the bulk write rejects the whole batch with the error
  'One or more students not found' and stores nothing: the existence check finds as many
  students as there are distinct submitted identifiers, fewer than the submitted
  identifiers counted with repetition.
\<close>

theorem bulk_duplicate_student_rejected:
  assumes "bulkAttendanceSchema env b = Inr v"
    and "distinct (map s_id (students st))"
    and "set (map i_student_id (v_records v)) \<subseteq> s_id ` set (students st)"
    and "\<not> distinct (map i_student_id (v_records v))"
  shows "post_bulk env st b = (Failure 400 (Message ''One or more students not found''), st)
     \<and> length (filter (\<lambda>s. s_id s \<in> set (map i_student_id (v_records v))) (students st))
         = card (set (map i_student_id (v_records v)))
     \<and> card (set (map i_student_id (v_records v))) < length (map i_student_id (v_records v))"
proof -
  let ?ids = "map i_student_id (v_records v)"
  have "set ?ids \<inter> s_id ` set (students st) = set ?ids"
    using assms(3) by blast
  then have found: "length (filter (\<lambda>s. s_id s \<in> set ?ids) (students st)) = card (set ?ids)"
    using found_length [OF assms(2), of ?ids] by simp
  have "card (set ?ids) \<noteq> length ?ids"
    using assms(4) card_distinct by blast
  moreover have "card (set ?ids) \<le> length ?ids" by (rule card_length)
  ultimately have fewer: "card (set ?ids) < length ?ids" by linarith
  have read: "those (map (store_uuid env st) ?ids) = Some ?ids"
    using assms(3) by (rule store_uuid_all_stored)
  have "length (filter (\<lambda>s. s_id s \<in> set ?ids) (students st)) \<noteq> length (v_records v)"
    using found fewer by simp
  then have "post_bulk env st b = (Failure 400 (Message ''One or more students not found''), st)"
    unfolding post_bulk_valid [OF assms(1)] read by simp
  with found fewer show ?thesis by blast
qed

theorem bulk_duplicate_student_rejected_witness:
  "post_bulk demo_env demo_store bulk_with_repeat
     = (Failure 400 (Message ''One or more students not found''), demo_store)"
proof -
  let ?v = "\<lparr>v_bulk_date = 1704067200000,
             v_records = [\<lparr>i_student_id = emma_id, i_status = ''Present''\<rparr>,
                          \<lparr>i_student_id = emma_id, i_status = ''Absent''\<rparr>]\<rparr>"
  have v: "bulkAttendanceSchema demo_env bulk_with_repeat = Inr ?v"
    by code_simp
  have ids: "distinct (map s_id (students demo_store))"
    by (simp add: demo_store_def emma_id_def liam_id_def)
  have known: "set (map i_student_id (v_records ?v)) \<subseteq> s_id ` set (students demo_store)"
    by (simp add: demo_store_def)
  have twice: "\<not> distinct (map i_student_id (v_records ?v))"
    by simp
  from bulk_duplicate_student_rejected [OF v ids known twice] show ?thesis
    by (rule conjunct1)
qed
section \<open>Proofs: the single write\<close>






lemma filter_unique_key:
  "distinct (map f xs) \<Longrightarrow> x \<in> set xs \<Longrightarrow> filter (\<lambda>z. f z = f x) xs = [x]"
proof (induction xs)
  case Nil
  then show ?case by simp
next
  case (Cons a xs)
  show ?case
  proof (cases "a = x")
    case True
    with Cons.prems have "f x \<notin> f ` set xs" by simp
    then have "\<forall>z \<in> set xs. f z \<noteq> f x"
      by (metis imageI)
    then have "filter (\<lambda>z. f z = f x) xs = []"
      by (simp add: filter_empty_conv)
    with True show ?thesis by simp
  next
    case False
    with Cons.prems have x: "x \<in> set xs" by simp
    from Cons.prems have "f a \<notin> f ` set xs" by simp
    with x have "f a \<noteq> f x" by (metis imageI)
    moreover from Cons.prems have "distinct (map f xs)" by simp
    ultimately show ?thesis using Cons.IH x by simp
  qed
qed









section \<open>Proofs: the class-and-date view\<close>








section \<open>Proofs: deleting a class\<close>

lemma delete_class_with_students:
  assumes "\<exists>s \<in> set (students st). s_class_id s = cid"
  shows "delete_class st cid
         = (Failure 400 (Message ''Cannot delete class with existing students''), st)"
proof -
  from assms have "filter (\<lambda>s. s_class_id s = cid) (students st) \<noteq> []"
    by (simp add: filter_empty_conv)
  then show ?thesis
    by (simp add: delete_class_def Let_def)
qed

lemma delete_class_without_students:
  assumes none: "\<not> (\<exists>s \<in> set (students st). s_class_id s = cid)"
    and ids: "distinct (map c_id (classes st))"
    and c: "c \<in> set (classes st)" "c_id c = cid"
  shows "fst (delete_class st cid) = Success 200 ()
     \<and> classes (snd (delete_class st cid)) = filter (\<lambda>k. c_id k \<noteq> cid) (classes st)
     \<and> students (snd (delete_class st cid)) = students st"
proof -
  from none have nil: "filter (\<lambda>s. s_class_id s = cid) (students st) = []"
    by (simp add: filter_empty_conv)
  have "filter (\<lambda>k. c_id k = c_id c) (classes st) = [c]"
    using ids c(1) by (rule filter_unique_key)
  then have one: "filter (\<lambda>k. c_id k = cid) (classes st) = [c]"
    by (simp add: c(2))
  have keep: "filter (\<lambda>s. s_class_id s \<noteq> cid) (students st) = students st"
    using none by (simp add: filter_id_conv)
  show ?thesis
    by (simp add: delete_class_def Let_def nil one single_row_def delete_rows_def keep)
qed

lemma delete_class_missing:
  assumes "\<not> (\<exists>s \<in> set (students st). s_class_id s = cid)"
    and "cid \<notin> c_id ` set (classes st)"
  shows "delete_class st cid = (Failure 500 (Message ''Failed to delete class''), st)"
proof -
  from assms(1) have nil: "filter (\<lambda>s. s_class_id s = cid) (students st) = []"
    by (simp add: filter_empty_conv)
  from assms(2) have "\<forall>k \<in> set (classes st). c_id k \<noteq> cid" by (metis imageI)
  then have "filter (\<lambda>k. c_id k = cid) (classes st) = []"
    by (simp add: filter_empty_conv)
  then show ?thesis
    by (simp add: delete_class_def Let_def nil single_row_def)
qed

text \<open>
  C7. Deleting a class that does not exist, and that no student references, answers with
  status 500 and the error 'Failed to delete class', not with a not-found answer: the
  request for the single deleted row yields no row, which the store's client reports as
  an error, and the route throws it before its not-found branch is reached. (The lemmas
  above prove the two other parts of the claim: the rejection with status 400 when a
  student references the class, and the deletion of an existing class without students.)
\<close>

theorem delete_missing_class_is_500:
  "delete_class demo_store class_9z_id
     = (Failure 500 (Message ''Failed to delete class''), demo_store)"
  by (simp add: delete_class_def demo_store_def Let_def single_row_def class_9z_id_def
      class_3a_id_def)

section \<open>Proofs: listing attendance\<close>

text \<open>Without \<^verbatim>\<open>limit\<close> and \<^verbatim>\<open>offset\<close> the page is the first 100 rows of the ordering.\<close>

lemma list_default_page:
  "list_attendance st no_filters
   = Success 200 (map (embed_student st None) (take 100 (order_desc (attendance st))),
                  \<lparr>p_limit = 100, p_offset = 0\<rparr>)"
  by (simp add: list_attendance_def no_filters_def Let_def to_number_def js_sub_def js_add_def
      when_given_def truthy_def range_rows_def)

text \<open>
  The decimal numeral of a number reads back as the number, and the numerals of two
  numbers, written one after the other, read as one number.
\<close>

lemma digit_val_digit:
  fixes n :: nat
  assumes "n < 10"
  shows "digit_val (''0123456789'' ! n) = Some n"
proof -
  have "list_all (\<lambda>k. digit_val (''0123456789'' ! k) = Some k) [0..<10]"
    by (simp add: digit_val_def upt_rec [of _ "numeral _"])
  moreover from assms have "n \<in> set [0..<10]" by simp
  ultimately show ?thesis by (simp only: list_all_iff)
qed

lemma digits_value_append:
  "digits_value acc (xs @ ys)
   = (case digits_value acc xs of None \<Rightarrow> None | Some v \<Rightarrow> digits_value v ys)"
  by (induction xs arbitrary: acc) (auto split: option.splits)

lemma digits_value_show_nat:
  "digits_value acc (show_nat n) = Some (acc * 10 ^ length (show_nat n) + n)"
proof (induction n arbitrary: acc rule: show_nat.induct)
  case (1 n)
  show ?case
  proof (cases "n < 10")
    case True
    then show ?thesis
      by (subst (1 2) show_nat.simps) (simp add: digit_val_digit)
  next
    case False
    have d: "digit_val (''0123456789'' ! (n mod 10)) = Some (n mod 10)"
      by (rule digit_val_digit) simp
    from False show ?thesis
      by (subst (1 2) show_nat.simps)
        (simp add: digits_value_append "1.IH" d algebra_simps)
  qed
qed

lemma to_number_show_nat: "to_number (Str (show_nat n)) = Some (int n)"
  by (simp add: to_number_def digits_value_show_nat)

lemma range_end_concatenated:
  "js_sub (js_add (Str (show_nat offv)) (Str (show_nat limv))) (Num 1)
   = Some (int (offv * 10 ^ length (show_nat limv) + limv) - 1)"
proof -
  have "digits_value 0 (show_nat offv @ show_nat limv)
        = Some (offv * 10 ^ length (show_nat limv) + limv)"
    by (simp add: digits_value_append digits_value_show_nat)
  then show ?thesis
    by (simp add: js_sub_def js_add_def to_string_def to_number_def)
qed

lemma show_nat_nonempty: "0 < length (show_nat n)"
  by (subst show_nat.simps) simp

text \<open>
  With only \<^verbatim>\<open>limit\<close> supplied the page is the first \<open>limit\<close> rows. With both supplied,
  the page starts at \<open>offset\<close> and ends where the concatenated numerals say: it has
  \<open>offset * 10 ^ k + limit - offset\<close> rows at most, \<open>k\<close> the number of digits of \<open>limit\<close>,
  instead of \<open>limit\<close>.
\<close>

lemma list_page_when_limit_only:
  assumes "q_offset q = None" and "q_limit q = Some limv"
    and "q_student_id q = None" and "q_class_id q = None" and "q_date q = None"
    and "q_start_date q = None" and "q_end_date q = None" and "q_status q = None"
  shows "list_attendance st q
   = Success 200
       (map (embed_student st None) (take limv (order_desc (attendance st))),
        \<lparr>p_limit = int limv, p_offset = 0\<rparr>)"
proof -
  have z: "show_int 0 = ''0''"
    by (simp add: show_int_def show_nat.simps)
  have "digits_value 0 (''0'' @ show_nat limv) = Some limv"
    by (simp add: digits_value_show_nat digit_val_def)
  then have "js_sub (js_add (Num 0) (Str (show_nat limv))) (Num 1) = Some (int limv - 1)"
    by (simp add: js_sub_def js_add_def to_string_def to_number_def z)
  moreover have "to_number (Num 0) = Some 0"
    by (simp add: to_number_def)
  ultimately show ?thesis
    using assms
    by (simp add: list_attendance_def Let_def to_number_show_nat when_given_def truthy_def
        range_rows_def)
qed

lemma list_page_when_both_supplied:
  assumes "q_offset q = Some offv" and "q_limit q = Some limv"
    and "q_student_id q = None" and "q_class_id q = None" and "q_date q = None"
    and "q_start_date q = None" and "q_end_date q = None" and "q_status q = None"
  shows "list_attendance st q
   = Success 200
       (map (embed_student st None)
          (take (offv * 10 ^ length (show_nat limv) + limv - offv)
             (drop offv (order_desc (attendance st)))),
        \<lparr>p_limit = int limv, p_offset = int offv\<rparr>)"
proof -
  have "offv \<le> offv * 10 ^ length (show_nat limv)" by simp
  then have "nat (int (offv * 10 ^ length (show_nat limv) + limv) - 1 - int offv + 1)
             = offv * 10 ^ length (show_nat limv) + limv - offv"
    by linarith
  then show ?thesis
    using assms
    by (simp add: list_attendance_def Let_def to_number_show_nat range_end_concatenated
        when_given_def truthy_def range_rows_def)
qed

text \<open>
  A class filter leaves the rows of students of other classes in the answer, with an empty
  embedded student: here the three rows of a student of 3A under a filter for another
  class.
\<close>

lemma list_class_filter_keeps_rows:
  "list_attendance demo_store (no_filters\<lparr>q_class_id := Some class_9z_id\<rparr>)
   = Success 200
       (map (\<lambda>a. \<lparr>l_row = a, l_students = None\<rparr>) (order_desc (attendance demo_store)),
        \<lparr>p_limit = 100, p_offset = 0\<rparr>)"
  by (simp add: list_attendance_def demo_store_def no_filters_def Let_def to_number_def
      js_sub_def js_add_def when_given_def truthy_def order_desc_def range_rows_def
      embed_student_def emma_id_def liam_id_def class_9z_id_def class_3a_id_def)

text \<open>
  C9. With \<^verbatim>\<open>offset=1\<close> and \<^verbatim>\<open>limit=1\<close> in the query string, the route answers with the rows
  at the positions 1 and 2 of the ordering (the rows with the identifiers 1 and 0), not
  with the one row at position 1: the two parameters are texts, so
  \<^verbatim>\<open>offset + limit - 1\<close> is \<^verbatim>\<open>'1' + '1' - 1\<close>, which is 10, and the range is 1 to 10.
\<close>

theorem list_page_concatenates:
  "page_ids (list_attendance demo_store (no_filters\<lparr>q_limit := Some 1, q_offset := Some 1\<rparr>))
     = [1, 0]
   \<and> map a_id (take 1 (drop 1 (order_desc (attendance demo_store)))) = [1]"
  by (simp add: page_ids_def list_attendance_def demo_store_def no_filters_def Let_def
      show_nat.simps digit_val_def to_number_def js_sub_def js_add_def to_string_def
      when_given_def
      truthy_def order_desc_def range_rows_def embed_student_def emma_id_def liam_id_def)

end
